theory Spec2Isabelle
  imports Complex_Main "HOL-Library.Word"
begin

unbundle bit_operations_syntax

section \<open>JavaScript values used by the services\<close>

type_synonym byte = "8 word"

text \<open>A 32-bit integer as the bitwise operators of JavaScript see it (ToInt32 of a number).\<close>

type_synonym int32 = "32 word"

text \<open>\<open>Number.prototype.toString()\<close> on an integer: decimal digits, a minus sign when negative.\<close>

definition digitChar :: "nat \<Rightarrow> char" where
  "digitChar d = ''0123456789'' ! d"

function string_of_nat :: "nat \<Rightarrow> string" where
  "string_of_nat n = (if n < 10 then [digitChar n] else string_of_nat (n div 10) @ [digitChar (n mod 10)])"
  by pat_completeness auto
termination
  by (relation "measure (\<lambda>n. n)") auto

declare string_of_nat.simps [simp del]

definition string_of_int :: "int \<Rightarrow> string" where
  "string_of_int i = (if i < 0 then CHR ''-'' # string_of_nat (nat (- i)) else string_of_nat (nat i))"

text \<open>\<open>String.prototype.padStart(targetLength, padString)\<close> with a one-character pad string.\<close>

definition padStart :: "nat \<Rightarrow> char \<Rightarrow> string \<Rightarrow> string" where
  "padStart n c s = replicate (n - length s) c @ s"

text \<open>\<open>String.prototype.indexOf\<close> for a single character: the first position, or none (-1).\<close>

fun indexOf :: "'a list \<Rightarrow> 'a \<Rightarrow> nat option" where
  "indexOf [] c = None"
| "indexOf (x # xs) c = (if x = c then Some 0 else map_option Suc (indexOf xs c))"

text \<open>\<open>toUpperCase\<close> on one character of the 8-bit range: only a-z are mapped into ASCII.\<close>

definition toUpperCase :: "char \<Rightarrow> char" where
  "toUpperCase c = (case indexOf ''abcdefghijklmnopqrstuvwxyz'' c of
      None \<Rightarrow> c | Some i \<Rightarrow> ''ABCDEFGHIJKLMNOPQRSTUVWXYZ'' ! i)"

text \<open>\<open>x || d\<close> on an optional string: the default replaces undefined and the empty string.\<close>

definition orString :: "string option \<Rightarrow> string \<Rightarrow> string" where
  "orString x d = (case x of None \<Rightarrow> d | Some s \<Rightarrow> if s = [] then d else s)"

section \<open>Node's crypto: SHA-1 and HMAC-SHA1\<close>

text \<open>
  \<open>crypto.createHmac('sha1', key).update(buffer).digest()\<close> is the HMAC of RFC 2104 over the
  SHA-1 of FIPS 180: 32-bit words, addition modulo \<open>2^32\<close>, a sixteen-word sliding window for
  the message schedule. On 32-bit words \<open>take_bit 32\<close> is the identity; it is written where
  the standard says ``modulo \<open>2^32\<close>'' and keeps the numerals of an evaluation reduced.
\<close>

definition rotl :: "nat \<Rightarrow> int32 \<Rightarrow> int32" where
  "rotl n x = take_bit 32 (push_bit n x OR drop_bit (32 - n) x)"

definition be32 :: "byte \<Rightarrow> byte \<Rightarrow> byte \<Rightarrow> byte \<Rightarrow> int32" where
  "be32 a b c d = push_bit 24 (ucast a) OR push_bit 16 (ucast b) OR push_bit 8 (ucast c) OR ucast d"

fun words_of_bytes :: "byte list \<Rightarrow> int32 list" where
  "words_of_bytes (a # b # c # d # bs) = be32 a b c d # words_of_bytes bs"
| "words_of_bytes _ = []"

definition bytes_of_word :: "int32 \<Rightarrow> byte list" where
  "bytes_of_word x = [ucast (drop_bit 24 x), ucast (drop_bit 16 x), ucast (drop_bit 8 x), ucast x]"

definition bytes_of_len :: "nat \<Rightarrow> byte list" where
  "bytes_of_len n = map (\<lambda>k. word_of_nat (n div 2 ^ k mod 256)) [56, 48, 40, 32, 24, 16, 8, 0]"

definition sha1_pad :: "byte list \<Rightarrow> byte list" where
  "sha1_pad m = m @ [0x80] @ replicate ((119 - length m mod 64) mod 64) 0 @ bytes_of_len (8 * length m)"

type_synonym sha1_state = "int32 \<times> int32 \<times> int32 \<times> int32 \<times> int32"

definition sha1_f :: "nat \<Rightarrow> int32 \<Rightarrow> int32 \<Rightarrow> int32 \<Rightarrow> int32" where
  "sha1_f t b c d = (if t < 20 then (b AND c) OR (NOT b AND d)
     else if t < 40 then b XOR c XOR d
     else if t < 60 then (b AND c) OR (b AND d) OR (c AND d)
     else b XOR c XOR d)"

definition sha1_k :: "nat \<Rightarrow> int32" where
  "sha1_k t = (if t < 20 then 0x5A827999 else if t < 40 then 0x6ED9EBA1
     else if t < 60 then 0x8F1BBCDC else 0xCA62C1D6)"

definition sha1_round :: "nat \<Rightarrow> int32 \<Rightarrow> sha1_state \<Rightarrow> sha1_state" where
  "sha1_round t w s = (case s of (a, b, c, d, e) \<Rightarrow>
     (take_bit 32 (rotl 5 a + sha1_f t b c d + e + sha1_k t + w), a, rotl 30 b, c, d))"

function sha1_rounds :: "nat \<Rightarrow> sha1_state \<Rightarrow> int32 list \<Rightarrow> sha1_state" where
  "sha1_rounds t s ws = (if 80 \<le> t then s
     else sha1_rounds (t + 1) (sha1_round t (ws ! 0) s)
            (tl ws @ [rotl 1 (ws ! 13 XOR ws ! 8 XOR ws ! 2 XOR ws ! 0)]))"
  by pat_completeness auto
termination
  by (relation "measure (\<lambda>(t, s, ws). 80 - t)") auto

declare sha1_rounds.simps [simp del]

definition sha1_block :: "sha1_state \<Rightarrow> byte list \<Rightarrow> sha1_state" where
  "sha1_block h blk = (case h of (h0, h1, h2, h3, h4) \<Rightarrow>
     (case sha1_rounds 0 h (words_of_bytes blk) of
        (a, b, c, d, e) \<Rightarrow>
          (take_bit 32 (h0 + a), take_bit 32 (h1 + b), take_bit 32 (h2 + c),
           take_bit 32 (h3 + d), take_bit 32 (h4 + e))))"

function sha1_blocks :: "sha1_state \<Rightarrow> byte list \<Rightarrow> sha1_state" where
  "sha1_blocks h bs = (if length bs < 64 then h
     else sha1_blocks (sha1_block h (take 64 bs)) (drop 64 bs))"
  by pat_completeness auto
termination
  by (relation "measure (\<lambda>(h, bs). length bs)") auto

declare sha1_blocks.simps [simp del]

definition sha1_init :: sha1_state where
  "sha1_init = (0x67452301, 0xEFCDAB89, 0x98BADCFE, 0x10325476, 0xC3D2E1F0)"

definition sha1_digest :: "sha1_state \<Rightarrow> byte list" where
  "sha1_digest s = (case s of (a, b, c, d, e) \<Rightarrow>
     bytes_of_word a @ bytes_of_word b @ bytes_of_word c @ bytes_of_word d @ bytes_of_word e)"

definition sha1 :: "byte list \<Rightarrow> byte list" where
  "sha1 m = sha1_digest (sha1_blocks sha1_init (sha1_pad m))"

definition hmac_sha1 :: "byte list \<Rightarrow> byte list \<Rightarrow> byte list" where
  "hmac_sha1 key msg =
     (let k0 = (if 64 < length key then sha1 key else key);
          k = k0 @ replicate (64 - length k0) 0
      in sha1 (map (\<lambda>b. b XOR 0x5c) k @ sha1 (map (\<lambda>b. b XOR 0x36) k @ msg)))"

section \<open>TwoFactorService: TOTP\<close>

text \<open>
  \<open>base32Decode\<close>: the loop keeps \<open>bits\<close>, \<open>value\<close> and \<open>result\<close>; a character outside
  the alphabet is skipped (\<open>continue\<close>). \<open>value\<close> is never masked: \<open>value << 5\<close> wraps at 32
  bits, and \<open>value >>> (bits - 8)\<close> reads it unsigned.
\<close>

definition base32Chars :: string where
  "base32Chars = ''ABCDEFGHIJKLMNOPQRSTUVWXYZ234567''"

fun base32Loop :: "string \<Rightarrow> nat \<Rightarrow> int32 \<Rightarrow> byte list \<Rightarrow> byte list" where
  "base32Loop [] bits val result = result"
| "base32Loop (ch # encoded) bits val result =
     (case indexOf base32Chars (toUpperCase ch) of
        None \<Rightarrow> base32Loop encoded bits val result
      | Some index \<Rightarrow>
          (let val' = push_bit 5 val OR word_of_nat index;
               bits' = bits + 5
           in if 8 \<le> bits'
              then base32Loop encoded (bits' - 8) val'
                     (result @ [ucast (drop_bit (bits' - 8) val' AND 0xff)])
              else base32Loop encoded bits' val' result))"

definition base32Decode :: "string \<Rightarrow> byte list" where
  "base32Decode encoded = base32Loop encoded 0 0 []"

text \<open>
  The loop \<open>for (i = 0; i < 8; i++) { buffer[7 - i] = counter & 0xff; counter = counter >> 8 }\<close>.
  \<open>&\<close> and \<open>>>\<close> work on ToInt32 of the counter, and \<open>>>\<close> propagates the sign.
\<close>

fun fillBuffer :: "nat list \<Rightarrow> int32 \<Rightarrow> byte list \<Rightarrow> byte list" where
  "fillBuffer [] counter buffer = buffer"
| "fillBuffer (i # rest) counter buffer =
     fillBuffer rest (signed_drop_bit 8 counter) (buffer[7 - i := ucast (counter AND 0xff)])"

text \<open>
  \<open>generateTOTP(secret, timeStep = 30)\<close>. The clock \<open>Date.now()\<close> is the argument \<open>now\<close>, in
  milliseconds; \<open>Math.floor(now / 1000 / timeStep)\<close> is taken as the exact quotient (with a
  time step of 0 the counter is \<open>Infinity\<close> or \<open>NaN\<close>, which \<open>&\<close> reads as 0, the value of
  the quotient here). The digest has twenty bytes, so every index read below is in range.
  The top bit of \<open>code\<close> is masked off, so \<open>code % 1000000\<close> is taken of a number that is not
  negative.
\<close>

definition generateTOTP :: "nat \<Rightarrow> string \<Rightarrow> nat \<Rightarrow> string" where
  "generateTOTP now secret timeStep =
     (let counter = now div 1000 div timeStep;
          buffer = fillBuffer [0, 1, 2, 3, 4, 5, 6, 7] (word_of_nat counter) (replicate 8 0);
          key = base32Decode secret;
          hash = hmac_sha1 key buffer;
          offset = unat (hash ! (length hash - 1) AND 0xf);
          code = (push_bit 24 (ucast (hash ! offset AND 0x7f)) OR
                  push_bit 16 (ucast (hash ! (offset + 1) AND 0xff)) OR
                  push_bit 8 (ucast (hash ! (offset + 2) AND 0xff)) OR
                  ucast (hash ! (offset + 3) AND 0xff) :: int32)
      in padStart 6 CHR ''0'' (string_of_nat (unat code mod 1000000)))"

text \<open>
  \<open>verifyTOTP(secret, code, window = 1)\<close>: the loop runs \<open>i\<close> from \<open>-window\<close> to \<open>window\<close>;
  its body calls \<open>generateTOTP(secret, timeStep)\<close> and uses neither \<open>i\<close> nor \<open>counter\<close>.
  Every reading of the clock during one call gives \<open>now\<close>.
\<close>

function verifyTOTPLoop :: "nat \<Rightarrow> string \<Rightarrow> string \<Rightarrow> int \<Rightarrow> int \<Rightarrow> bool" where
  "verifyTOTPLoop now secret code window i =
     (if i \<le> window
      then (let expectedCode = generateTOTP now secret 30
            in if code = expectedCode then True
               else verifyTOTPLoop now secret code window (i + 1))
      else False)"
  by pat_completeness auto
termination
  by (relation "measure (\<lambda>(now, secret, code, window, i). nat (window + 1 - i))") auto

declare verifyTOTPLoop.simps [simp del]

definition verifyTOTP :: "nat \<Rightarrow> string \<Rightarrow> string \<Rightarrow> int \<Rightarrow> bool" where
  "verifyTOTP now secret code window = verifyTOTPLoop now secret code window (- window)"

section \<open>EncryptionService: hash and verifyHash\<close>

text \<open>\<open>Buffer.toString('hex')\<close> and \<open>Buffer.from(s, 'hex')\<close>; decoding stops at the first pair
  that is not two hexadecimal digits.\<close>

definition hexDigits :: string where
  "hexDigits = ''0123456789abcdef''"

definition toHex :: "byte list \<Rightarrow> string" where
  "toHex bs = concat (map (\<lambda>b. [hexDigits ! (unat b div 16), hexDigits ! (unat b mod 16)]) bs)"

definition hexVal :: "char \<Rightarrow> nat option" where
  "hexVal c = (case indexOf hexDigits c of
      Some v \<Rightarrow> Some v
    | None \<Rightarrow> map_option (\<lambda>i. i + 10) (indexOf ''ABCDEF'' c))"

fun fromHex :: "string \<Rightarrow> byte list" where
  "fromHex (a # b # rest) =
     (case hexVal a of
        None \<Rightarrow> []
      | Some x \<Rightarrow> (case hexVal b of
          None \<Rightarrow> []
        | Some y \<Rightarrow> word_of_nat (16 * x + y) # fromHex rest))"
| "fromHex _ = []"

text \<open>
  \<open>hash(data, salt?)\<close>: \<open>salt || crypto.randomBytes(32).toString('hex')\<close>, then
  \<open>crypto.pbkdf2Sync(data, useSalt, 10000, 64, 'sha512')\<close> in hexadecimal. The key derivation
  of Node is the parameter \<open>pbkdf2\<close>; \<open>rnd\<close> is the value the random generator returns when
  it is asked. The result is the pair \<open>(hash, salt)\<close>.
\<close>

definition hash :: "(string \<Rightarrow> string \<Rightarrow> byte list) \<Rightarrow> string \<Rightarrow> string \<Rightarrow> string option
    \<Rightarrow> string \<times> string" where
  "hash pbkdf2 rnd data salt =
     (let useSalt = orString salt rnd
      in (toHex (pbkdf2 data useSalt), useSalt))"

text \<open>\<open>crypto.timingSafeEqual\<close> throws on buffers of different lengths: \<open>None\<close>.\<close>

definition timingSafeEqual :: "byte list \<Rightarrow> byte list \<Rightarrow> bool option" where
  "timingSafeEqual a b = (if length a \<noteq> length b then None else Some (a = b))"

text \<open>\<open>verifyHash(data, hash, salt)\<close>: any exception is caught and gives \<open>false\<close>.\<close>

definition verifyHash :: "(string \<Rightarrow> string \<Rightarrow> byte list) \<Rightarrow> string \<Rightarrow> string \<Rightarrow> string \<Rightarrow> string
    \<Rightarrow> bool" where
  "verifyHash pbkdf2 rnd data storedHash salt =
     (let computedHash = fst (hash pbkdf2 rnd data (Some salt))
      in case timingSafeEqual (fromHex storedHash) (fromHex computedHash) of
           None \<Rightarrow> False
         | Some r \<Rightarrow> r)"

section \<open>TwoFactorService: enable2FA and verify2FACode\<close>

record user =
  twoFactorEnabled :: bool
  twoFactorSecret :: "string option"
  twoFactorBackupCodes :: "string list"
  twoFactorEnabledAt :: "int option"

type_synonym userTable = "string \<rightharpoonup> user"

record twoFactorResult =
  success :: bool
  isBackupCode :: bool

text \<open>
  What a call of \<open>verify2FACode\<close> or \<open>enable2FA\<close> does besides returning: the calls it
  makes to the encryption and the decryption, to \<open>verifyTOTP\<close>, to \<open>verifyHash\<close> (with the
  index compared), to the store's update, and to the logger.
\<close>

datatype effect =
  Encrypt | Decrypt | VerifyTOTP | VerifyHash nat | UpdateUser | UpdateBackupCodes
  | LoggerInfo | LoggerWarn | LoggerError

text \<open>
  The collaborators of one call: \<open>EncryptionService.encrypt\<close> and \<open>decrypt\<close> (\<open>None\<close> when
  they throw), the key derivation, the salt the random generator gives at the \<open>i\<close>-th call of
  \<open>hash\<close> within this call (in \<open>verify2FACode\<close> the \<open>i\<close>-th comparison), and whether the
  store's \<open>findUnique\<close> and \<open>update\<close> throw.
\<close>

record twoFactorEnv =
  encrypt :: "string \<Rightarrow> string option"
  decrypt :: "string \<Rightarrow> string option"
  pbkdf2Sync :: "string \<Rightarrow> string \<Rightarrow> byte list"
  randomSalt :: "nat \<Rightarrow> string"
  findUniqueThrows :: bool
  updateThrows :: bool

text \<open>
  \<open>enable2FA(userId, secret, backupCodes)\<close>: every code is hashed by \<open>hash(code)\<close>, with no
  salt given, and of the pair returned only \<open>hash\<close> is kept. The store's \<open>update\<close> throws for
  a user that does not exist; every exception is caught, logged and gives \<open>false\<close>.
\<close>

definition enable2FA :: "int \<Rightarrow> twoFactorEnv \<Rightarrow> userTable \<Rightarrow> string \<Rightarrow> string \<Rightarrow> string list
    \<Rightarrow> bool \<times> userTable \<times> effect list" where
  "enable2FA now env users userId secret backupCodes =
     (case encrypt env secret of
        None \<Rightarrow> (False, users, [Encrypt, LoggerError])
      | Some encryptedSecret \<Rightarrow>
          (let hashedBackupCodes =
                 map (\<lambda>i. fst (hash (pbkdf2Sync env) (randomSalt env i) (backupCodes ! i) None))
                   [0..<length backupCodes]
           in if updateThrows env then (False, users, [Encrypt, UpdateUser, LoggerError])
              else case users userId of
                None \<Rightarrow> (False, users, [Encrypt, UpdateUser, LoggerError])
              | Some u \<Rightarrow>
                  (True,
                   users(userId \<mapsto> u\<lparr>twoFactorEnabled := True,
                     twoFactorSecret := Some encryptedSecret,
                     twoFactorBackupCodes := hashedBackupCodes,
                     twoFactorEnabledAt := Some now\<rparr>),
                   [Encrypt, UpdateUser, LoggerInfo])))"

text \<open>The loop \<open>for (i = 0; i < codes.length; i++) if (verifyHash(code, codes[i], ''))\<close>:
  the first index that verifies.\<close>

function backupCodeLoop :: "twoFactorEnv \<Rightarrow> string \<Rightarrow> string list \<Rightarrow> nat \<Rightarrow> nat option" where
  "backupCodeLoop env code codes i =
     (if i < length codes
      then (if verifyHash (pbkdf2Sync env) (randomSalt env i) code (codes ! i) []
            then Some i
            else backupCodeLoop env code codes (i + 1))
      else None)"
  by pat_completeness auto
termination
  by (relation "measure (\<lambda>(env, code, codes, i). length codes - i)") auto

declare backupCodeLoop.simps [simp del]

text \<open>\<open>codes.filter((_, index) => index !== i)\<close>.\<close>

definition filterIndex :: "nat \<Rightarrow> 'a list \<Rightarrow> 'a list" where
  "filterIndex i xs = map snd (filter (\<lambda>(index, x). index \<noteq> i) (zip [0..<length xs] xs))"

definition failed :: twoFactorResult where
  "failed = \<lparr>success = False, isBackupCode = False\<rparr>"

definition verify2FACode :: "nat \<Rightarrow> twoFactorEnv \<Rightarrow> userTable \<Rightarrow> string \<Rightarrow> string
    \<Rightarrow> twoFactorResult \<times> userTable \<times> effect list" where
  "verify2FACode now env users userId code =
     (if findUniqueThrows env then (failed, users, [LoggerError])
      else case users userId of
        None \<Rightarrow> (failed, users, [])
      | Some u \<Rightarrow>
          if \<not> (twoFactorEnabled u \<and> orString (twoFactorSecret u) [] \<noteq> []) then (failed, users, [])
          else (case decrypt env (the (twoFactorSecret u)) of
            None \<Rightarrow> (failed, users, [Decrypt, LoggerError])
          | Some secret \<Rightarrow>
              if verifyTOTP now secret code 1
              then (\<lparr>success = True, isBackupCode = False\<rparr>, users, [Decrypt, VerifyTOTP])
              else (case backupCodeLoop env code (twoFactorBackupCodes u) 0 of
                None \<Rightarrow> (failed, users,
                  [Decrypt, VerifyTOTP] @ map VerifyHash [0..<length (twoFactorBackupCodes u)])
              | Some i \<Rightarrow>
                  if updateThrows env
                  then (failed, users,
                    [Decrypt, VerifyTOTP] @ map VerifyHash [0..<i + 1] @ [UpdateBackupCodes, LoggerError])
                  else (\<lparr>success = True, isBackupCode = True\<rparr>,
                    users(userId \<mapsto> u\<lparr>twoFactorBackupCodes := filterIndex i (twoFactorBackupCodes u)\<rparr>),
                    [Decrypt, VerifyTOTP] @ map VerifyHash [0..<i + 1] @ [UpdateBackupCodes, LoggerWarn]))))"

section \<open>GeoLocationService\<close>

record geoLocation =
  ip :: string
  country :: string
  countryCode :: string
  region :: string
  regionCode :: string
  city :: string
  zipCode :: string
  latitude :: real
  longitude :: real
  timezone :: string
  isp :: string
  org :: string
  asName :: string
  proxy :: bool
  hosting :: bool
  vpn :: bool
  tor :: bool

datatype anomalyType =
  COUNTRY_CHANGE | REGION_CHANGE | CITY_CHANGE | SUSPICIOUS_PROXY | UNUSUAL_TIME | HIGH_RISK_COUNTRY

datatype severity = LOW | MEDIUM | HIGH | CRITICAL

record locationAnomaly =
  anomalyType :: anomalyType
  anomalySeverity :: severity
  description :: string
  currentLocation :: geoLocation
  previousLocation :: "geoLocation option"
  riskScore :: real

text \<open>The body of the provider's answer; a field the answer does not carry is \<open>None\<close>.\<close>

record apiData =
  d_status :: "string option"
  d_message :: "string option"
  d_country :: "string option"
  d_countryCode :: "string option"
  d_region :: "string option"
  d_regionName :: "string option"
  d_city :: "string option"
  d_zip :: "string option"
  d_lat :: "real option"
  d_lon :: "real option"
  d_timezone :: "string option"
  d_isp :: "string option"
  d_org :: "string option"
  d_as :: "string option"
  d_proxy :: "bool option"
  d_hosting :: "bool option"

text \<open>\<open>axios.get(url, {timeout: 5000})\<close>: the promise rejects (network error, timeout, an answer
  without a body) or resolves with the body.\<close>

datatype axiosResult = Rejected | Resolved apiData

datatype logLevel = Info | Warn | Error

type_synonym geoCache = "string \<rightharpoonup> geoLocation \<times> int"

definition CACHE_DURATION :: int where
  "CACHE_DURATION = 24 * 60 * 60 * 1000"

definition HIGH_RISK_COUNTRIES :: "string list" where
  "HIGH_RISK_COUNTRIES = [''KP'', ''IR'', ''SY'', ''CU'', ''RU'']"

fun startsWith :: "string \<Rightarrow> string \<Rightarrow> bool" where
  "startsWith s [] = True"
| "startsWith [] (p # ps) = False"
| "startsWith (c # cs) (p # ps) = (c = p \<and> startsWith cs ps)"

text \<open>The regular expression \<open>/^172\.(1[6-9]|2[0-9]|3[0-1])\./\<close>.\<close>

definition matches172 :: "string \<Rightarrow> bool" where
  "matches172 s =
     (startsWith s ''172.'' \<and>
      (case drop 4 s of
         a # b # c # _ \<Rightarrow>
           c = CHR ''.'' \<and>
           ((a = CHR ''1'' \<and> b \<in> set ''6789'') \<or>
            (a = CHR ''2'' \<and> b \<in> set ''0123456789'') \<or>
            (a = CHR ''3'' \<and> b \<in> set ''01''))
       | _ \<Rightarrow> False))"

definition isLocalIP :: "string \<Rightarrow> bool" where
  "isLocalIP addr =
     (startsWith addr ''127.'' \<or> startsWith addr ''10.'' \<or> matches172 addr \<or>
      startsWith addr ''192.168.'' \<or> startsWith addr ''169.254.'' \<or> addr = ''::1'' \<or>
      startsWith addr ''fe80:'')"

definition getLocalLocation :: "string \<Rightarrow> geoLocation" where
  "getLocalLocation addr =
     \<lparr>ip = addr, country = ''Local'', countryCode = ''LOCAL'', region = ''Local Network'',
      regionCode = ''LOCAL'', city = ''Local'', zipCode = [], latitude = 0, longitude = 0,
      timezone = ''UTC'', isp = ''Local Network'', org = ''Local Network'', asName = ''Local'',
      proxy = False, hosting = False, vpn = False, tor = False\<rparr>"

definition orReal :: "real option \<Rightarrow> real \<Rightarrow> real" where
  "orReal x d = (case x of None \<Rightarrow> d | Some v \<Rightarrow> if v = 0 then d else v)"

definition orBool :: "bool option \<Rightarrow> bool \<Rightarrow> bool" where
  "orBool x d = (case x of None \<Rightarrow> d | Some v \<Rightarrow> if v then v else d)"

definition locationOf :: "string \<Rightarrow> apiData \<Rightarrow> geoLocation" where
  "locationOf ipAddress d =
     \<lparr>ip = ipAddress,
      country = orString (d_country d) ''Unknown'',
      countryCode = orString (d_countryCode d) ''XX'',
      region = orString (d_regionName d) ''Unknown'',
      regionCode = orString (d_region d) ''XX'',
      city = orString (d_city d) ''Unknown'',
      zipCode = orString (d_zip d) [],
      latitude = orReal (d_lat d) 0,
      longitude = orReal (d_lon d) 0,
      timezone = orString (d_timezone d) ''UTC'',
      isp = orString (d_isp d) ''Unknown'',
      org = orString (d_org d) ''Unknown'',
      asName = orString (d_as d) ''Unknown'',
      proxy = orBool (d_proxy d) False,
      hosting = orBool (d_hosting d) False,
      vpn = orBool (d_proxy d) False,
      tor = False\<rparr>"

text \<open>
  \<open>getLocation(ipAddress)\<close>: the clock, the provider and the cache (a static field of the
  class) are arguments; the result carries the cache after the call and the levels logged.
  The whole body is inside \<open>try\<close>, and the \<open>catch\<close> returns \<open>null\<close>. Both readings of
  the clock during one call give \<open>now\<close>.
\<close>

definition getLocation :: "int \<Rightarrow> (string \<Rightarrow> axiosResult) \<Rightarrow> geoCache \<Rightarrow> string
    \<Rightarrow> geoLocation option \<times> geoCache \<times> logLevel list" where
  "getLocation now axiosGet cache ipAddress =
     (let cached = cache ipAddress
      in if cached \<noteq> None \<and> now - snd (the cached) < CACHE_DURATION
         then (Some (fst (the cached)), cache, [])
         else if isLocalIP ipAddress then (Some (getLocalLocation ipAddress), cache, [])
         else (case axiosGet ipAddress of
            Rejected \<Rightarrow> (None, cache, [Error])
          | Resolved d \<Rightarrow>
              if d_status d = Some ''success''
              then (let location = locationOf ipAddress d
                    in (Some location, cache(ipAddress \<mapsto> (location, now)), []))
              else (None, cache, [Warn])))"

text \<open>A row of the audit log, as \<open>findMany\<close> returns it.\<close>

record auditLogRow =
  l_userId :: string
  l_action :: string
  l_success :: bool
  l_ipAddress :: "string option"
  l_timestamp :: int

text \<open>\<open>Array.from(new Set(xs))\<close>: the first occurrence of each element, in order.\<close>

fun distinctFirst :: "'a list \<Rightarrow> 'a list" where
  "distinctFirst [] = []"
| "distinctFirst (x # xs) = x # distinctFirst (filter (\<lambda>y. y \<noteq> x) xs)"

text \<open>\<open>Promise.all(ips.map(ip => getLocation(ip)))\<close>. The addresses are distinct and a call
  reads and writes the cache at its own address only, so the calls are taken in order.\<close>

fun getLocations :: "int \<Rightarrow> (string \<Rightarrow> axiosResult) \<Rightarrow> geoCache \<Rightarrow> string list
    \<Rightarrow> geoLocation option list \<times> geoCache \<times> logLevel list" where
  "getLocations now axiosGet cache [] = ([], cache, [])"
| "getLocations now axiosGet cache (a # as) =
     (case getLocation now axiosGet cache a of
        (loc, cache', logs) \<Rightarrow>
          (case getLocations now axiosGet cache' as of
             (locs, cache'', logs') \<Rightarrow> (loc # locs, cache'', logs @ logs')))"

text \<open>
  \<open>detectAnomalies(userId, currentIP)\<close>. \<open>findMany\<close> is the answer of the store to the query
  for the user's last successful logins (five rows at most, distinct addresses, most recent
  first), \<open>None\<close> when the query throws; \<open>currentHour\<close> is \<open>new Date().getHours()\<close>.
\<close>

definition detectAnomalies :: "int \<Rightarrow> nat \<Rightarrow> (string \<Rightarrow> axiosResult)
    \<Rightarrow> (string \<Rightarrow> auditLogRow list option) \<Rightarrow> geoCache \<Rightarrow> string \<Rightarrow> string
    \<Rightarrow> locationAnomaly list \<times> geoCache \<times> logLevel list" where
  "detectAnomalies now currentHour axiosGet findMany cache userId currentIP =
     (case getLocation now axiosGet cache currentIP of
        (None, cache1, logs1) \<Rightarrow> ([], cache1, logs1)
      | (Some cur, cache1, logs1) \<Rightarrow>
         (case findMany userId of
            None \<Rightarrow> ([], cache1, logs1 @ [Error])
          | Some previousLogins \<Rightarrow>
             if length previousLogins = 0 then ([], cache1, logs1)
             else
               (let previousCountries =
                      distinctFirst (filter (\<lambda>a. a \<noteq> [])
                        (map (\<lambda>a. the a) (filter (\<lambda>a. a \<noteq> None) (map l_ipAddress previousLogins))))
                in case getLocations now axiosGet cache1 previousCountries of
                  (previousLocations, cache2, logs2) \<Rightarrow>
                    (let previous = (case previousLocations of [] \<Rightarrow> None | p # _ \<Rightarrow> p);
                         previousCountry = map_option countryCode previous;
                         previousRegion = map_option regionCode previous;
                         a1 = (if orString previousCountry [] \<noteq> [] \<and> previousCountry \<noteq> Some (countryCode cur)
                               then [\<lparr>anomalyType = COUNTRY_CHANGE, anomalySeverity = HIGH,
                                      description = ''Login from different country: '' @ country cur @
                                        '' ('' @ countryCode cur @ '')'',
                                      currentLocation = cur, previousLocation = previous,
                                      riskScore = 0.8\<rparr>]
                               else []);
                         a2 = (if orString previousRegion [] \<noteq> [] \<and> previousRegion \<noteq> Some (regionCode cur)
                               then [\<lparr>anomalyType = REGION_CHANGE, anomalySeverity = MEDIUM,
                                      description = ''Login from different region: '' @ region cur,
                                      currentLocation = cur, previousLocation = previous,
                                      riskScore = 0.6\<rparr>]
                               else []);
                         a3 = (if proxy cur \<or> vpn cur
                               then [\<lparr>anomalyType = SUSPICIOUS_PROXY, anomalySeverity = MEDIUM,
                                      description = ''Login from proxy/VPN detected'',
                                      currentLocation = cur, previousLocation = None,
                                      riskScore = 0.7\<rparr>]
                               else []);
                         a4 = (if countryCode cur \<in> set HIGH_RISK_COUNTRIES
                               then [\<lparr>anomalyType = HIGH_RISK_COUNTRY, anomalySeverity = CRITICAL,
                                      description = ''Login from high-risk country: '' @ country cur,
                                      currentLocation = cur, previousLocation = None,
                                      riskScore = 0.9\<rparr>]
                               else []);
                         a5 = (if currentHour < 6 \<or> 23 < currentHour
                               then [\<lparr>anomalyType = UNUSUAL_TIME, anomalySeverity = LOW,
                                      description = ''Login at unusual hour: '' @
                                        string_of_nat currentHour @ '':00'',
                                      currentLocation = cur, previousLocation = None,
                                      riskScore = 0.3\<rparr>]
                               else [])
                     in (a1 @ a2 @ a3 @ a4 @ a5, cache2, logs1 @ logs2)))))"

section \<open>IPBlacklistService\<close>

datatype blacklistSource = MANUAL | AUTOMATIC | SYSTEM

text \<open>The value of a \<open>details\<close> argument; the store keeps its \<open>JSON.stringify\<close>, which this
  model does not compute: a row holds the value itself. An object is the list of its members
  in the order they are written.\<close>

datatype json = JString string | JNumber int | JObject "(string \<times> json) list"

text \<open>An entry of the in-memory map \<open>blacklistCache\<close>; a date is its time value in
  milliseconds.\<close>

record blacklistEntry =
  reason :: string
  expiresAt :: "int option"

type_synonym blacklistCache = "string \<rightharpoonup> blacklistEntry"

record ipBlacklistRow =
  r_ipAddress :: string
  r_reason :: string
  r_expiresAt :: "int option"
  r_source :: blacklistSource
  r_details :: "json option"
  r_createdAt :: int
  r_updatedAt :: int

record securityLogRow =
  s_userId :: "string option"
  s_action :: string
  s_details :: "json option"
  s_ipAddress :: "string option"
  s_userAgent :: "string option"
  s_severity :: severity
  s_timestamp :: int

text \<open>The persisted tables the two services write, and what they send to the logger.\<close>

record store =
  iPBlacklist :: "string \<rightharpoonup> ipBlacklistRow"
  securityLog :: "securityLogRow list"
  logger :: "(logLevel \<times> string) list"

text \<open>\<open>isBlacklisted(ipAddress)\<close> reads and writes the map only.\<close>

definition isBlacklisted :: "int \<Rightarrow> blacklistCache \<Rightarrow> string \<Rightarrow> bool \<times> blacklistCache" where
  "isBlacklisted now cache ipAddress =
     (case cache ipAddress of
        None \<Rightarrow> (False, cache)
      | Some blacklistEntry \<Rightarrow>
          if expiresAt blacklistEntry \<noteq> None \<and> the (expiresAt blacklistEntry) < now
          then (False, cache(ipAddress := None))
          else (True, cache))"

definition getBlacklistReason :: "blacklistCache \<Rightarrow> string \<Rightarrow> string option \<times> blacklistCache" where
  "getBlacklistReason cache ipAddress =
     (case cache ipAddress of
        None \<Rightarrow> (None, cache)
      | Some blacklistEntry \<Rightarrow> (Some (reason blacklistEntry), cache))"

text \<open>\<open>prisma.iPBlacklist.upsert\<close>: an existing row keeps its \<open>createdAt\<close>.\<close>

definition upsert :: "int \<Rightarrow> (string \<rightharpoonup> ipBlacklistRow) \<Rightarrow> string \<Rightarrow> string \<Rightarrow> int option
    \<Rightarrow> blacklistSource \<Rightarrow> json option \<Rightarrow> (string \<rightharpoonup> ipBlacklistRow)" where
  "upsert now table ipAddress rsn expires source details =
     (case table ipAddress of
        Some row \<Rightarrow> table(ipAddress \<mapsto> row\<lparr>r_reason := rsn, r_expiresAt := expires,
          r_source := source, r_details := details, r_updatedAt := now\<rparr>)
      | None \<Rightarrow> table(ipAddress \<mapsto> \<lparr>r_ipAddress = ipAddress, r_reason = rsn, r_expiresAt = expires,
          r_source = source, r_details = details, r_createdAt = now, r_updatedAt = now\<rparr>))"

text \<open>
  \<open>addToBlacklist({ipAddress, reason, duration, source, details})\<close>. \<open>data.duration ? ... : null\<close>
  takes an absent duration and the duration 0 to \<open>null\<close>. \<open>upsertThrows\<close> says whether the
  store rejects the write; the \<open>catch\<close> then logs and returns \<open>false\<close>, before the map is touched.
\<close>

definition addToBlacklist :: "int \<Rightarrow> bool \<Rightarrow> store \<times> blacklistCache \<Rightarrow> string \<Rightarrow> string
    \<Rightarrow> int option \<Rightarrow> blacklistSource \<Rightarrow> json option \<Rightarrow> bool \<times> store \<times> blacklistCache" where
  "addToBlacklist now upsertThrows st ipAddress rsn duration source details =
     (let expires = (if duration \<noteq> None \<and> the duration \<noteq> 0
                     then Some (now + the duration * 60 * 1000) else None)
      in if upsertThrows
         then (False, (fst st)\<lparr>logger := logger (fst st) @ [(Error, ''Failed to add IP to blacklist:'')]\<rparr>,
               snd st)
         else (True,
               (fst st)\<lparr>iPBlacklist := upsert now (iPBlacklist (fst st)) ipAddress rsn expires source details,
                        logger := logger (fst st) @
                          [(Warn, ''IP '' @ ipAddress @ '' blacklisted: '' @ rsn)]\<rparr>,
               (snd st)(ipAddress \<mapsto> \<lparr>reason = rsn, expiresAt = expires\<rparr>)))"

definition severityName :: "severity \<Rightarrow> string" where
  "severityName s = (case s of LOW \<Rightarrow> ''LOW'' | MEDIUM \<Rightarrow> ''MEDIUM'' | HIGH \<Rightarrow> ''HIGH''
     | CRITICAL \<Rightarrow> ''CRITICAL'')"

text \<open>\<open>AuditService.logSecurityEvent\<close>: a rejected write is logged and swallowed.\<close>

definition logSecurityEvent :: "int \<Rightarrow> bool \<Rightarrow> store \<Rightarrow> string option \<Rightarrow> string \<Rightarrow> json option
    \<Rightarrow> string option \<Rightarrow> string option \<Rightarrow> severity \<Rightarrow> store" where
  "logSecurityEvent now createThrows st userId action details ipAddress userAgent sev =
     (if createThrows
      then st\<lparr>logger := logger st @ [(Error, ''Failed to log security event:'')]\<rparr>
      else st\<lparr>securityLog := securityLog st @
                 [\<lparr>s_userId = userId, s_action = action, s_details = details, s_ipAddress = ipAddress,
                   s_userAgent = userAgent, s_severity = sev, s_timestamp = now\<rparr>],
               logger := logger st @
                 [(if sev = CRITICAL then Error else if sev = HIGH then Warn else Info,
                   ''SECURITY: '' @ action @ '' - Severity: '' @ severityName sev)]\<rparr>)"

text \<open>
  Writing a member into an object: a key that is there keeps its place and takes the new
  value, a new key goes to the end. \<open>{...obj, ...src}\<close> writes the members of \<open>src\<close> in
  order. (Keys that are array indices, which JavaScript lists first, are listed here where
  they were written.)
\<close>

fun setMember :: "(string \<times> json) list \<Rightarrow> string \<Rightarrow> json \<Rightarrow> (string \<times> json) list" where
  "setMember [] k v = [(k, v)]"
| "setMember ((k', v') # ms) k v =
     (if k' = k then (k, v) # ms else (k', v') # setMember ms k v)"

definition spread :: "(string \<times> json) list \<Rightarrow> (string \<times> json) list \<Rightarrow> (string \<times> json) list" where
  "spread obj src = foldl (\<lambda>acc (k, v). setMember acc k v) obj src"

text \<open>
  \<open>handleSuspiciousActivity({ipAddress, activity, count, threshold, details})\<close>; the members of
  \<open>details\<close> (none when it is absent) are spread after the three the handler writes. The
  counts are integers, which the template literal prints in decimal digits below \<open>10^21\<close>.
\<close>

definition handleSuspiciousActivity :: "int \<Rightarrow> bool \<Rightarrow> bool \<Rightarrow> store \<times> blacklistCache \<Rightarrow> string
    \<Rightarrow> string \<Rightarrow> int \<Rightarrow> int \<Rightarrow> (string \<times> json) list \<Rightarrow> store \<times> blacklistCache" where
  "handleSuspiciousActivity now upsertThrows createThrows st ipAddress activity count threshold details =
     (if threshold \<le> count
      then (let rsn = ''Suspicious activity detected: '' @ activity @ '' ('' @ string_of_int count @
                      '' attempts)'';
                duration = (if activity = ''LOGIN_FAILED'' then 30
                            else if activity = ''RATE_LIMIT_EXCEEDED'' then 60
                            else if activity = ''UNAUTHORIZED_ACCESS'' then 120
                            else if activity = ''FILE_UPLOAD_VIOLATION'' then 240
                            else 60);
                added = addToBlacklist now upsertThrows st ipAddress rsn (Some duration) AUTOMATIC
                          (Some (JObject (spread [(''activity'', JString activity),
                             (''count'', JNumber count), (''threshold'', JNumber threshold)] details)))
            in (logSecurityEvent now createThrows (fst (snd added)) None ''SUSPICIOUS_ACTIVITY''
                  (Some (JObject [(''activity'', JString activity), (''count'', JNumber count),
                     (''threshold'', JNumber threshold), (''action'', JString ''IP_BLACKLISTED'')]))
                  (Some ipAddress) None HIGH,
                snd (snd added)))
      else st)"

section \<open>AuditService: getAuditStats\<close>

text \<open>
  A JavaScript number: a finite value, one of the two infinities, or \<open>NaN\<close>. Finite values
  are taken as reals: the rounding of doubles and the sign of zero are not modelled. The
  operators are those of the language: a division by zero is not an error, it gives \<open>NaN\<close>
  for \<open>0 / 0\<close> and an infinity otherwise.
\<close>

datatype number = Finite real | PosInfinity | NegInfinity | NaN

definition ofCount :: "int \<Rightarrow> number" where
  "ofCount n = Finite (real_of_int n)"

fun jsSub :: "number \<Rightarrow> number \<Rightarrow> number" where
  "jsSub NaN y = NaN"
| "jsSub x NaN = NaN"
| "jsSub (Finite a) (Finite b) = Finite (a - b)"
| "jsSub (Finite a) PosInfinity = NegInfinity"
| "jsSub (Finite a) NegInfinity = PosInfinity"
| "jsSub PosInfinity PosInfinity = NaN"
| "jsSub NegInfinity NegInfinity = NaN"
| "jsSub PosInfinity y = PosInfinity"
| "jsSub NegInfinity y = NegInfinity"

fun jsDiv :: "number \<Rightarrow> number \<Rightarrow> number" where
  "jsDiv NaN y = NaN"
| "jsDiv x NaN = NaN"
| "jsDiv (Finite a) (Finite b) =
     (if b = 0 then (if a = 0 then NaN else if 0 < a then PosInfinity else NegInfinity)
      else Finite (a / b))"
| "jsDiv (Finite a) y = Finite 0"
| "jsDiv PosInfinity (Finite b) = (if 0 \<le> b then PosInfinity else NegInfinity)"
| "jsDiv NegInfinity (Finite b) = (if 0 \<le> b then NegInfinity else PosInfinity)"
| "jsDiv x y = NaN"

fun jsMul :: "number \<Rightarrow> number \<Rightarrow> number" where
  "jsMul NaN y = NaN"
| "jsMul x NaN = NaN"
| "jsMul (Finite a) (Finite b) = Finite (a * b)"
| "jsMul (Finite a) PosInfinity =
     (if a = 0 then NaN else if 0 < a then PosInfinity else NegInfinity)"
| "jsMul (Finite a) NegInfinity =
     (if a = 0 then NaN else if 0 < a then NegInfinity else PosInfinity)"
| "jsMul PosInfinity (Finite b) =
     (if b = 0 then NaN else if 0 < b then PosInfinity else NegInfinity)"
| "jsMul NegInfinity (Finite b) =
     (if b = 0 then NaN else if 0 < b then NegInfinity else PosInfinity)"
| "jsMul PosInfinity PosInfinity = PosInfinity"
| "jsMul NegInfinity NegInfinity = PosInfinity"
| "jsMul x y = NegInfinity"

text \<open>
  The expression \<open>((totalActions - failedActions) / totalActions) * 100\<close> of \<open>getAuditStats\<close>,
  on its own.
\<close>

definition rateOf :: "int \<Rightarrow> int \<Rightarrow> number" where
  "rateOf totalCount failedCount =
     jsMul (jsDiv (jsSub (ofCount totalCount) (ofCount failedCount)) (ofCount totalCount))
       (Finite 100)"

record auditStats =
  totalActions :: int
  failedActions :: int
  securityEvents :: int
  successRate :: number

text \<open>
  \<open>getAuditStats(days = 30)\<close>. The start date is \<open>new Date()\<close> after
  \<open>setDate(getDate() - days)\<close>: the same local time of day \<open>days\<close> calendar days earlier, which
  depends on the time zone of the host (a day has 23 or 25 hours where the clocks change); it
  is the parameter \<open>setDate\<close>, from the time value of now and the number of days to the time
  value of the start. The three counts come from one state of the tables. A count that throws
  rejects the call: \<open>None\<close>.
\<close>

definition getAuditStats :: "(int \<Rightarrow> int \<Rightarrow> int) \<Rightarrow> int \<Rightarrow> bool \<Rightarrow> auditLogRow list
    \<Rightarrow> securityLogRow list \<Rightarrow> int \<Rightarrow> auditStats option" where
  "getAuditStats setDate now countThrows auditLog secLog days =
     (if countThrows then None
      else (let startDate = setDate now days;
                total = int (length (filter (\<lambda>r. startDate \<le> l_timestamp r) auditLog));
                failedCount = int (length (filter (\<lambda>r. startDate \<le> l_timestamp r \<and> l_success r = False)
                                auditLog));
                events = int (length (filter (\<lambda>r. startDate \<le> s_timestamp r) secLog))
            in Some \<lparr>totalActions = total, failedActions = failedCount, securityEvents = events,
                 successRate = (if 0 < total
                                then jsMul (jsDiv (jsSub (ofCount total) (ofCount failedCount))
                                              (ofCount total)) (Finite 100)
                                else Finite 0)\<rparr>))"

section \<open>Inputs of the examples\<close>

text \<open>
  The secret of the test vectors of RFC 6238 (the ASCII string \<open>12345678901234567890\<close> in
  base 32).
\<close>

definition rfc_secret :: string where
  "rfc_secret = ''GEZDGNBVGY3TQOJQGEZDGNBVGY3TQOJQ''"

text \<open>
  The environment of the examples: encryption and decryption that return their argument, no
  failure of the store, and one salt that the random generator gives at every call within
  one call of the service. The salt \<open>saltA\<close> is a possible value of
  \<open>crypto.randomBytes(32).toString('hex')\<close>.
\<close>

definition demoEnv :: "(string \<Rightarrow> string \<Rightarrow> byte list) \<Rightarrow> string \<Rightarrow> twoFactorEnv" where
  "demoEnv kdf salt = \<lparr>encrypt = Some, decrypt = Some, pbkdf2Sync = kdf, randomSalt = (\<lambda>i. salt),
     findUniqueThrows = False, updateThrows = False\<rparr>"

definition saltA :: string where
  "saltA = concat (replicate 32 ''5a'')"

text \<open>
  A stand-in for the key derivation, for the closed examples only: the bytes of the data
  followed by those of the salt. Like the key derivation of Node it gives different bytes
  under different salts; the general statements hold for every key derivation.
\<close>

definition demoKdf :: "string \<Rightarrow> string \<Rightarrow> byte list" where
  "demoKdf data salt = map (\<lambda>c. word_of_nat (of_char c)) (data @ salt)"

definition demoUser :: "string list \<Rightarrow> user" where
  "demoUser codes = \<lparr>twoFactorEnabled = True, twoFactorSecret = Some rfc_secret,
     twoFactorBackupCodes = codes, twoFactorEnabledAt = Some 0\<rparr>"

definition demoCode :: string where
  "demoCode = ''A1B2C3D4''"






definition demoHash :: "(string \<Rightarrow> string \<Rightarrow> byte list) \<Rightarrow> string \<Rightarrow> string" where
  "demoHash kdf salt = toHex (kdf demoCode salt)"


definition emptyStore :: store where
  "emptyStore = \<lparr>iPBlacklist = Map.empty, securityLog = [], logger = []\<rparr>"

definition apiAnswer :: "string \<Rightarrow> string \<Rightarrow> string \<Rightarrow> string \<Rightarrow> string \<Rightarrow> apiData" where
  "apiAnswer status cname ccode rname rcode =
     \<lparr>d_status = Some status, d_message = None, d_country = Some cname, d_countryCode = Some ccode,
      d_region = Some rcode, d_regionName = Some rname, d_city = None, d_zip = None, d_lat = None,
      d_lon = None, d_timezone = None, d_isp = None, d_org = None, d_as = None, d_proxy = None,
      d_hosting = None\<rparr>"

definition demoProvider :: "string \<Rightarrow> axiosResult" where
  "demoProvider addr =
     (if addr = ''198.51.100.1'' then Resolved (apiAnswer ''success'' ''United States'' ''US'' ''California'' ''CA'')
      else if addr = ''203.0.113.9'' then Resolved (apiAnswer ''success'' ''Canada'' ''CA'' ''Ontario'' ''ON'')
      else if addr = ''192.0.2.44'' then Resolved (apiAnswer ''fail'' [] [] [] [])
      else Rejected)"

definition demoHistory :: "string \<Rightarrow> auditLogRow list option" where
  "demoHistory userId =
     Some [\<lparr>l_userId = userId, l_action = ''LOGIN'', l_success = True,
            l_ipAddress = Some ''198.51.100.1'', l_timestamp = 1000\<rparr>]"

definition demoCurrent :: geoLocation where
  "demoCurrent = locationOf ''203.0.113.9'' (apiAnswer ''success'' ''Canada'' ''CA'' ''Ontario'' ''ON'')"

definition demoPrevious :: geoLocation where
  "demoPrevious =
     locationOf ''198.51.100.1'' (apiAnswer ''success'' ''United States'' ''US'' ''California'' ''CA'')"

text \<open>\<open>setDate\<close> in a time zone whose clocks never change.\<close>

definition utcSetDate :: "int \<Rightarrow> int \<Rightarrow> int" where
  "utcSetDate now days = now - days * 86400000"

definition demoLog :: "auditLogRow list" where
  "demoLog = map (\<lambda>(ok, t). \<lparr>l_userId = ''user1'', l_action = ''LOGIN'', l_success = ok,
       l_ipAddress = None, l_timestamp = t\<rparr>)
     [(True, 10), (False, 20), (True, 30), (True, 40)]"

section \<open>Evaluating the digest\<close>

lemma replicate_numeral: "replicate (numeral k) x = x # replicate (numeral k - 1) x"
  by (simp add: numeral_eq_Suc)

lemma list_update_numeral: "(x # xs)[numeral k := y] = x # xs[numeral k - 1 := y]"
  by (simp add: numeral_eq_Suc)

lemma sha1_length: "length (sha1 m) = 20"
  by (cases "sha1_blocks sha1_init (sha1_pad m)") (simp add: sha1_def sha1_digest_def bytes_of_word_def)

lemma hmac_sha1_length: "length (hmac_sha1 key msg) = 20"
  by (simp add: hmac_sha1_def Let_def sha1_length)

text \<open>
  The two padded key blocks of the test secret are compressed once; each counter then costs
  one more block for the inner and one for the outer hash.
\<close>

lemma base32Decode_rfc_secret:
  "base32Decode rfc_secret =
     [49, 50, 51, 52, 53, 54, 55, 56, 57, 48, 49, 50, 51, 52, 53, 54, 55, 56, 57, 48]"
  by (simp add: rfc_secret_def base32Decode_def base32Chars_def toUpperCase_def)

lemma sha1_block_ipad:
  "sha1_block sha1_init
     ([7, 4, 5, 2, 3, 0, 1, 14, 15, 6, 7, 4, 5, 2, 3, 0, 1, 14, 15, 6] @
      replicate 44 54) =
   (3418885260, 4120502956, 3183003698, 3667247555, 4167577637)"
  by (simp add: replicate_numeral sha1_block_def sha1_init_def be32_def sha1_rounds.simps
      sha1_round_def sha1_f_def sha1_k_def rotl_def)

lemma sha1_block_opad:
  "sha1_block sha1_init
     ([109, 110, 111, 104, 105, 106, 107, 100, 101, 108, 109, 110, 111, 104, 105, 106, 107,
       100, 101, 108] @
      replicate 44 92) =
   (2562571725, 1491106814, 2908544490, 985678603, 4262488101)"
  by (simp add: replicate_numeral sha1_block_def sha1_init_def be32_def sha1_rounds.simps
      sha1_round_def sha1_f_def sha1_k_def rotl_def)

lemma sha1_block_inner_0:
  "sha1_block (3418885260, 4120502956, 3183003698, 3667247555, 4167577637)
     ([0, 0, 0, 0, 0, 0, 0, 0, 128] @
      replicate 53 0 @
      [2, 64]) =
   (143776190, 163256007, 3362926067, 1759011664, 1719552414)"
  by (simp add: replicate_numeral sha1_block_def sha1_init_def be32_def sha1_rounds.simps
      sha1_round_def sha1_f_def sha1_k_def rotl_def)

lemma sha1_inner_0:
  "sha1
     ([7, 4, 5, 2, 3, 0, 1, 14, 15, 6, 7, 4, 5, 2, 3, 0, 1, 14, 15, 6] @
      replicate 44 54 @
      [0, 0, 0, 0, 0, 0, 0, 0]) =
   [8, 145, 217, 190, 9, 187, 22, 199, 200, 114, 45, 243, 104, 216, 99, 80, 102, 126, 73, 158]"
  using sha1_block_ipad sha1_block_inner_0
  by (simp add: sha1_def sha1_pad_def bytes_of_len_def replicate_numeral sha1_blocks.simps
      sha1_digest_def bytes_of_word_def)

lemma sha1_block_outer_0:
  "sha1_block (2562571725, 1491106814, 2908544490, 985678603, 4262488101)
     ([8, 145, 217, 190, 9, 187, 22, 199, 200, 114, 45, 243, 104, 216, 99, 80, 102, 126, 73,
       158, 128] @
      replicate 41 0 @
      [2, 160]) =
   (3432238872, 1351455891, 1281668701, 2343003775, 3083723952)"
  by (simp add: replicate_numeral sha1_block_def sha1_init_def be32_def sha1_rounds.simps
      sha1_round_def sha1_f_def sha1_k_def rotl_def)

lemma sha1_outer_0:
  "sha1
     ([109, 110, 111, 104, 105, 106, 107, 100, 101, 108, 109, 110, 111, 104, 105, 106, 107,
       100, 101, 108] @
      replicate 44 92 @
      [8, 145, 217, 190, 9, 187, 22, 199, 200, 114, 45, 243, 104, 216, 99, 80, 102, 126, 73, 158]) =
   [204, 147, 207, 24, 80, 141, 148, 147, 76, 100, 182, 93, 139, 167, 102, 127, 183, 205, 228,
    176]"
  using sha1_block_opad sha1_block_outer_0
  by (simp add: sha1_def sha1_pad_def bytes_of_len_def replicate_numeral sha1_blocks.simps
      sha1_digest_def bytes_of_word_def)

lemma hmac_sha1_counter_0:
  "hmac_sha1 [49, 50, 51, 52, 53, 54, 55, 56, 57, 48, 49, 50, 51, 52, 53, 54, 55, 56, 57, 48]
     [0, 0, 0, 0, 0, 0, 0, 0] =
   [204, 147, 207, 24, 80, 141, 148, 147, 76, 100, 182, 93, 139, 167, 102, 127, 183, 205, 228,
    176]"
  using sha1_inner_0 sha1_outer_0
  by (simp add: hmac_sha1_def Let_def replicate_numeral)

lemma sha1_block_inner_1:
  "sha1_block (3418885260, 4120502956, 3183003698, 3667247555, 4167577637)
     ([0, 0, 0, 0, 0, 0, 0, 1, 128] @
      replicate 53 0 @
      [2, 64]) =
   (2923006674, 3845772892, 1570953884, 2321626177, 2537110156)"
  by (simp add: replicate_numeral sha1_block_def sha1_init_def be32_def sha1_rounds.simps
      sha1_round_def sha1_f_def sha1_k_def rotl_def)

lemma sha1_inner_1:
  "sha1
     ([7, 4, 5, 2, 3, 0, 1, 14, 15, 6, 7, 4, 5, 2, 3, 0, 1, 14, 15, 6] @
      replicate 44 54 @
      [0, 0, 0, 0, 0, 0, 0, 1]) =
   [174, 57, 138, 210, 229, 57, 214, 92, 93, 162, 218, 156, 138, 97, 52, 65, 151, 57, 58, 140]"
  using sha1_block_ipad sha1_block_inner_1
  by (simp add: sha1_def sha1_pad_def bytes_of_len_def replicate_numeral sha1_blocks.simps
      sha1_digest_def bytes_of_word_def)

lemma sha1_block_outer_1:
  "sha1_block (2562571725, 1491106814, 2908544490, 985678603, 4262488101)
     ([174, 57, 138, 210, 229, 57, 214, 92, 93, 162, 218, 156, 138, 97, 52, 65, 151, 57, 58,
       140, 128] @
      replicate 41 0 @
      [2, 160]) =
   (1973717529, 3570131200, 1682868929, 964618868, 2049782699)"
  by (simp add: replicate_numeral sha1_block_def sha1_init_def be32_def sha1_rounds.simps
      sha1_round_def sha1_f_def sha1_k_def rotl_def)

lemma sha1_outer_1:
  "sha1
     ([109, 110, 111, 104, 105, 106, 107, 100, 101, 108, 109, 110, 111, 104, 105, 106, 107,
       100, 101, 108] @
      replicate 44 92 @
      [174, 57, 138, 210, 229, 57, 214, 92, 93, 162, 218, 156, 138, 97, 52, 65, 151, 57, 58, 140]) =
   [117, 164, 138, 25, 212, 203, 225, 0, 100, 78, 138, 193, 57, 126, 234, 116, 122, 45, 51, 171]"
  using sha1_block_opad sha1_block_outer_1
  by (simp add: sha1_def sha1_pad_def bytes_of_len_def replicate_numeral sha1_blocks.simps
      sha1_digest_def bytes_of_word_def)

lemma hmac_sha1_counter_1:
  "hmac_sha1 [49, 50, 51, 52, 53, 54, 55, 56, 57, 48, 49, 50, 51, 52, 53, 54, 55, 56, 57, 48]
     [0, 0, 0, 0, 0, 0, 0, 1] =
   [117, 164, 138, 25, 212, 203, 225, 0, 100, 78, 138, 193, 57, 126, 234, 116, 122, 45, 51, 171]"
  using sha1_inner_1 sha1_outer_1
  by (simp add: hmac_sha1_def Let_def replicate_numeral)

lemma generateTOTP_at_29s: "generateTOTP 29000 rfc_secret 30 = ''755224''"
  using hmac_sha1_counter_0
  apply (simp add: generateTOTP_def Let_def base32Decode_rfc_secret replicate_numeral
      list_update_numeral)
  apply (simp add: padStart_def string_of_nat.simps digitChar_def)
  done

lemma generateTOTP_at_59s: "generateTOTP 59000 rfc_secret 30 = ''287082''"
  using hmac_sha1_counter_1
  apply (simp add: generateTOTP_def Let_def base32Decode_rfc_secret replicate_numeral
      list_update_numeral)
  apply (simp add: padStart_def string_of_nat.simps digitChar_def)
  done

section \<open>TOTP verification\<close>

lemma verifyTOTPLoop_iff:
  "verifyTOTPLoop now secret code window i = (i \<le> window \<and> code = generateTOTP now secret 30)"
proof (induction now secret code window i rule: verifyTOTPLoop.induct)
  case (1 now secret code window i)
  show ?case
  proof (cases "i \<le> window")
    case True
    then show ?thesis
      using 1 by (subst verifyTOTPLoop.simps) (auto simp: Let_def)
  next
    case False
    then show ?thesis
      by (subst verifyTOTPLoop.simps) simp
  qed
qed

lemma verifyTOTP_iff:
  "verifyTOTP now secret code window = (0 \<le> window \<and> code = generateTOTP now secret 30)"
  unfolding verifyTOTP_def verifyTOTPLoop_iff by auto

text \<open>
  Claim C1: \<open>verifyTOTP\<close> is to accept the codes of the time steps \<open>counter - window\<close> to
  \<open>counter + window\<close>, each computed from its own counter. The loop computes the code of the
  current step at every iteration, so a code of a neighbouring step is refused: with the
  clock at 59 s (step 1) and window 1, the code \<open>755224\<close> generated at 29 s (step 0) is not
  accepted.
\<close>

theorem verifyTOTP_refuses_previous_step:
  "generateTOTP 29000 rfc_secret 30 = ''755224'' \<and>
   generateTOTP 59000 rfc_secret 30 = ''287082'' \<and>
   verifyTOTP 59000 rfc_secret ''755224'' 1 = False"
  by (simp add: verifyTOTP_iff generateTOTP_at_29s generateTOTP_at_59s)

text \<open>
  Claim C2: for every secret and every time, the code generated at that time is accepted by
  the verification at the same time, for the default window 1 and every other window that is
  not negative.
\<close>

theorem verifyTOTP_accepts_generated:
  "0 \<le> window \<Longrightarrow> verifyTOTP now secret (generateTOTP now secret 30) window"
  by (simp add: verifyTOTP_iff)

theorem verifyTOTP_accepts_generated_witness:
  "(0::int) \<le> 1 \<and> verifyTOTP 59000 rfc_secret (generateTOTP 59000 rfc_secret 30) 1"
  using verifyTOTP_accepts_generated [of 1 59000 rfc_secret] by simp

section \<open>Backup codes and the disabled credential\<close>

lemma filterIndex_snoc:
  "filterIndex i (xs @ [x]) = filterIndex i xs @ (if length xs = i then [] else [x])"
  by (simp add: filterIndex_def)

lemma filterIndex_eq: "filterIndex i xs = take i xs @ drop (Suc i) xs"
proof (induction xs rule: rev_induct)
  case Nil
  then show ?case by (simp add: filterIndex_def)
next
  case (snoc x xs)
  consider "i < length xs" | "i = length xs" | "length xs < i" by linarith
  then show ?case
  proof cases
    case 1
    then show ?thesis using snoc by (simp add: filterIndex_snoc)
  next
    case 2
    then show ?thesis using snoc by (simp add: filterIndex_snoc)
  next
    case 3
    then show ?thesis using snoc by (simp add: filterIndex_snoc)
  qed
qed

lemma backupCodeLoop_Some:
  "backupCodeLoop env code codes i = Some j \<Longrightarrow>
     i \<le> j \<and> j < length codes \<and>
     verifyHash (pbkdf2Sync env) (randomSalt env j) code (codes ! j) [] \<and>
     (\<forall>k. i \<le> k \<and> k < j \<longrightarrow> \<not> verifyHash (pbkdf2Sync env) (randomSalt env k) code (codes ! k) [])"
proof (induction env code codes i rule: backupCodeLoop.induct)
  case (1 env code codes i)
  show ?case
  proof (cases "i < length codes")
    case False
    then show ?thesis using 1(2) by (subst (asm) backupCodeLoop.simps) simp
  next
    case inb: True
    show ?thesis
    proof (cases "verifyHash (pbkdf2Sync env) (randomSalt env i) code (codes ! i) []")
      case True
      then have "j = i" using 1(2) inb by (subst (asm) backupCodeLoop.simps) simp
      then show ?thesis using True inb by auto
    next
      case False
      then have "backupCodeLoop env code codes (i + 1) = Some j"
        using 1(2) inb by (subst (asm) backupCodeLoop.simps) simp
      from 1(1)[OF inb False this] show ?thesis
        using False by (auto simp: less_Suc_eq_le dest: le_neq_implies_less)
    qed
  qed
qed


lemma indexOf_nth: "distinct xs \<Longrightarrow> n < length xs \<Longrightarrow> indexOf xs (xs ! n) = Some n"
proof (induction xs arbitrary: n)
  case Nil
  then show ?case by simp
next
  case (Cons x xs)
  show ?case
  proof (cases n)
    case 0
    then show ?thesis by simp
  next
    case (Suc m)
    with Cons.prems have "xs ! m \<in> set xs" "x \<notin> set xs" by auto
    then have "x \<noteq> xs ! m" by auto
    then show ?thesis using Cons Suc by simp
  qed
qed

lemma hexVal_digit: "n < 16 \<Longrightarrow> hexVal (hexDigits ! n) = Some n"
proof -
  assume "n < 16"
  moreover have "distinct hexDigits" "length hexDigits = 16"
    by (simp_all add: hexDigits_def)
  ultimately have "indexOf hexDigits (hexDigits ! n) = Some n"
    by (simp add: indexOf_nth)
  then show ?thesis by (simp add: hexVal_def)
qed

lemma fromHex_toHex: "fromHex (toHex bs) = bs"
proof (induction bs)
  case Nil
  then show ?case by (simp add: toHex_def)
next
  case (Cons b bs)
  have d: "unat b div 16 < 16"
    using unsigned_less [of b] by (simp add: div_less_iff_less_mult)
  have m: "unat b mod 16 < 16" by simp
  have w: "(word_of_nat (16 * (unat b div 16) + unat b mod 16) :: byte) = b"
    by (simp del: of_nat_add of_nat_mult)
  have "toHex (b # bs) = hexDigits ! (unat b div 16) # hexDigits ! (unat b mod 16) # toHex bs"
    by (simp add: toHex_def)
  then show ?case
    using Cons by (simp add: hexVal_digit [OF d] hexVal_digit [OF m] w del: of_nat_add of_nat_mult)
qed

text \<open>
  A stored hash that was derived from a code with salt \<open>s\<close> verifies exactly when the
  derivation of the submitted code with the salt drawn at the comparison gives the same
  bytes.
\<close>

lemma verifyHash_derived:
  "verifyHash kdf2 rnd code (toHex (kdf1 code' s)) [] = (kdf1 code' s = kdf2 code rnd)"
  by (auto simp: verifyHash_def hash_def orString_def timingSafeEqual_def fromHex_toHex Let_def)

lemma verify2FACode_backup_success:
  assumes "verify2FACode now env users userId code =
             (\<lparr>success = True, isBackupCode = True\<rparr>, users', es)"
  shows "\<exists>u i. users userId = Some u \<and> backupCodeLoop env code (twoFactorBackupCodes u) 0 = Some i \<and>
           users' = users(userId \<mapsto> u\<lparr>twoFactorBackupCodes := filterIndex i (twoFactorBackupCodes u)\<rparr>)"
  using assms
  by (auto simp: verify2FACode_def failed_def split: if_splits option.splits)




lemma enable2FA_True:
  assumes "enable2FA t0 env users userId secret backupCodes = (True, users', es)"
  shows "\<exists>u enc. users userId = Some u \<and> encrypt env secret = Some enc \<and>
           users' = users(userId \<mapsto> u\<lparr>twoFactorEnabled := True, twoFactorSecret := Some enc,
             twoFactorBackupCodes :=
               map (\<lambda>k. toHex (pbkdf2Sync env (backupCodes ! k) (randomSalt env k)))
                 [0..<length backupCodes],
             twoFactorEnabledAt := Some t0\<rparr>)"
  using assms
  by (auto simp: enable2FA_def hash_def orString_def Let_def split: option.splits if_splits)


text \<open>
  After \<open>enable2FA\<close>, a verification can succeed through a backup code only if the random
  generator gives, at some comparison, a salt under which the submitted code derives to the
  bytes stored at that index.
\<close>

lemma backup_success_needs_redraw:
  assumes en: "enable2FA t0 env1 users userId secret backupCodes = (True, users', es)"
    and ok: "verify2FACode now env2 users' userId code =
               (\<lparr>success = True, isBackupCode = True\<rparr>, users'', es')"
  shows "\<exists>k<length backupCodes.
           pbkdf2Sync env2 code (randomSalt env2 k) =
           pbkdf2Sync env1 (backupCodes ! k) (randomSalt env1 k)"
proof -
  from enable2FA_True [OF en] obtain u enc where
    upd: "users' = users(userId \<mapsto> u\<lparr>twoFactorEnabled := True, twoFactorSecret := Some enc,
             twoFactorBackupCodes :=
               map (\<lambda>k. toHex (pbkdf2Sync env1 (backupCodes ! k) (randomSalt env1 k)))
                 [0..<length backupCodes],
             twoFactorEnabledAt := Some t0\<rparr>)"
    by blast
  from verify2FACode_backup_success [OF ok] obtain v k where
    v: "users' userId = Some v" and
    loop: "backupCodeLoop env2 code (twoFactorBackupCodes v) 0 = Some k"
    by blast
  from v upd have codes: "twoFactorBackupCodes v =
      map (\<lambda>k. toHex (pbkdf2Sync env1 (backupCodes ! k) (randomSalt env1 k))) [0..<length backupCodes]"
    by auto
  from backupCodeLoop_Some [OF loop] have k: "k < length (twoFactorBackupCodes v)"
    and hit: "verifyHash (pbkdf2Sync env2) (randomSalt env2 k) code (twoFactorBackupCodes v ! k) []"
    by auto
  from k codes have k': "k < length backupCodes" by simp
  with hit codes have "pbkdf2Sync env1 (backupCodes ! k) (randomSalt env1 k) =
      pbkdf2Sync env2 code (randomSalt env2 k)"
    by (simp add: verifyHash_derived)
  with k' show ?thesis by auto
qed




text \<open>
  Claim C10: for a user whose credential is not enabled or has no stored secret,
  \<open>verify2FACode\<close> returns \<open>{success: false, isBackupCode: false}\<close> for every code; it calls
  neither the decryption, nor \<open>verifyTOTP\<close>, nor \<open>verifyHash\<close>, and the store is unchanged
  (the only effect possible is the error logged when the store's lookup itself throws).
\<close>

theorem verify2FACode_fails_closed:
  assumes "users userId = Some u"
    and "\<not> twoFactorEnabled u \<or> twoFactorSecret u = None"
  shows "verify2FACode now env users userId code =
           (\<lparr>success = False, isBackupCode = False\<rparr>, users,
            if findUniqueThrows env then [LoggerError] else [])"
  using assms by (auto simp: verify2FACode_def failed_def orString_def)

theorem verify2FACode_fails_closed_witness:
  "verify2FACode 59000 (demoEnv demoKdf saltA)
     (Map.empty(''u1'' \<mapsto> (demoUser [demoHash demoKdf saltA])\<lparr>twoFactorEnabled := False\<rparr>)) ''u1'' demoCode =
   (\<lparr>success = False, isBackupCode = False\<rparr>,
    Map.empty(''u1'' \<mapsto> (demoUser [demoHash demoKdf saltA])\<lparr>twoFactorEnabled := False\<rparr>), [])"
  using verify2FACode_fails_closed [of "Map.empty(''u1'' \<mapsto> (demoUser [demoHash demoKdf saltA])\<lparr>twoFactorEnabled := False\<rparr>)"
      "''u1''" "(demoUser [demoHash demoKdf saltA])\<lparr>twoFactorEnabled := False\<rparr>" 59000 "demoEnv demoKdf saltA" demoCode]
  by (simp add: demoEnv_def)

section \<open>The blacklist cache\<close>

lemma addToBlacklist_ok:
  "fst (addToBlacklist t0 upsertThrows st addr rsn duration src details) = (\<not> upsertThrows)"
  by (simp add: addToBlacklist_def Let_def)

lemma addToBlacklist_cache:
  "\<not> upsertThrows \<Longrightarrow>
   snd (snd (addToBlacklist t0 upsertThrows st addr rsn duration src details)) =
     (snd st)(addr \<mapsto> \<lparr>reason = rsn,
        expiresAt = (if duration \<noteq> None \<and> the duration \<noteq> 0 then Some (t0 + the duration * 60 * 1000) else None)\<rparr>)"
  by (simp add: addToBlacklist_def Let_def)

lemma addToBlacklist_failed:
  "upsertThrows \<Longrightarrow>
   addToBlacklist t0 upsertThrows st addr rsn duration src details =
     (False, (fst st)\<lparr>logger := logger (fst st) @ [(Error, ''Failed to add IP to blacklist:'')]\<rparr>, snd st)"
  by (simp add: addToBlacklist_def Let_def)

text \<open>
  Claim C5, as amended: after \<open>addToBlacklist\<close> has succeeded with a duration of \<open>d > 0\<close>
  minutes at time \<open>t0\<close>, \<open>isBlacklisted\<close> is true from \<open>t0\<close> up to and including
  \<open>t0 + d\<close> minutes, and at every later time it is false and removes the entry from the map.
  \<open>isBlacklisted\<close> has the map as its only state: it reaches neither the store nor the network.
\<close>

theorem blacklist_entry_expires:
  assumes "0 < d"
    and "fst (addToBlacklist t0 upsertThrows st addr rsn (Some d) src details)"
    and "cache = snd (snd (addToBlacklist t0 upsertThrows st addr rsn (Some d) src details))"
  shows "(\<forall>t. t0 \<le> t \<and> t \<le> t0 + d * 60 * 1000 \<longrightarrow> isBlacklisted t cache addr = (True, cache)) \<and>
         (\<forall>t. t0 + d * 60 * 1000 < t \<longrightarrow> isBlacklisted t cache addr = (False, cache(addr := None)))"
proof -
  from assms(2) have ok: "\<not> upsertThrows" by (simp add: addToBlacklist_ok)
  have "cache addr = Some \<lparr>reason = rsn, expiresAt = Some (t0 + d * 60 * 1000)\<rparr>"
    using assms(1,3) ok by (simp add: addToBlacklist_cache)
  then show ?thesis by (simp add: isBlacklisted_def)
qed

theorem blacklist_entry_expires_witness:
  "fst (addToBlacklist 0 False (emptyStore, Map.empty) ''203.0.113.7'' ''manual block'' (Some 10) MANUAL None) \<and>
   fst (isBlacklisted 0
     (snd (snd (addToBlacklist 0 False (emptyStore, Map.empty) ''203.0.113.7'' ''manual block'' (Some 10) MANUAL None)))
     ''203.0.113.7'') \<and>
   fst (isBlacklisted 600001
     (snd (snd (addToBlacklist 0 False (emptyStore, Map.empty) ''203.0.113.7'' ''manual block'' (Some 10) MANUAL None)))
     ''203.0.113.7'') = False \<and>
   snd (isBlacklisted 600001
     (snd (snd (addToBlacklist 0 False (emptyStore, Map.empty) ''203.0.113.7'' ''manual block'' (Some 10) MANUAL None)))
     ''203.0.113.7'') ''203.0.113.7'' = None"
proof -
  have ok: "fst (addToBlacklist 0 False (emptyStore, Map.empty) ''203.0.113.7'' ''manual block'' (Some 10) MANUAL None)"
    by (simp add: addToBlacklist_ok)
  have pos: "(0::int) < 10" by simp
  from blacklist_entry_expires [OF pos ok refl]
  show ?thesis using ok by simp
qed

text \<open>
  Claim C5 as stated does not hold at the boundary: exactly \<open>d\<close> minutes after the add the
  entry has not expired yet (\<open>expiresAt < now\<close> is strict), and \<open>isBlacklisted\<close> is true.
\<close>

theorem blacklist_boundary_counterexample:
  "fst (addToBlacklist 0 False (emptyStore, Map.empty) ''203.0.113.7'' ''manual block'' (Some 10) MANUAL None) \<and>
   fst (isBlacklisted (10 * 60 * 1000)
     (snd (snd (addToBlacklist 0 False (emptyStore, Map.empty) ''203.0.113.7'' ''manual block'' (Some 10) MANUAL None)))
     ''203.0.113.7'') = True"
  by (simp add: addToBlacklist_def isBlacklisted_def Let_def)

text \<open>
  Claim C6: \<open>handleSuspiciousActivity\<close> with \<open>count \<ge> threshold\<close> for \<open>LOGIN_FAILED\<close> leaves,
  when the store accepts the upsert, a persisted row with source \<open>AUTOMATIC\<close> expiring 30
  minutes later and the same expiry in the map, so that \<open>isBlacklisted\<close> is true during
  these 30 minutes; it appends, when the store accepts that write, one security-log event of
  severity \<open>HIGH\<close>; with \<open>count < threshold\<close> it changes neither the store nor the map.
\<close>

theorem escalation_at_threshold:
  "(threshold \<le> count \<and> \<not> upsertThrows \<longrightarrow>
      (let st' = handleSuspiciousActivity now upsertThrows createThrows (st, cache) addr ''LOGIN_FAILED''
                   count threshold details
       in (\<exists>row. iPBlacklist (fst st') addr = Some row \<and> r_source row = AUTOMATIC \<and>
             r_expiresAt row = Some (now + 30 * 60 * 1000)) \<and>
          map_option expiresAt (snd st' addr) = Some (Some (now + 30 * 60 * 1000)) \<and>
          (\<forall>t. now \<le> t \<and> t \<le> now + 30 * 60 * 1000 \<longrightarrow> isBlacklisted t (snd st') addr = (True, snd st')))) \<and>
   (threshold \<le> count \<and> \<not> createThrows \<longrightarrow>
      (\<exists>event. securityLog (fst (handleSuspiciousActivity now upsertThrows createThrows (st, cache) addr
                   ''LOGIN_FAILED'' count threshold details)) = securityLog st @ [event] \<and>
         s_severity event = HIGH \<and> s_action event = ''SUSPICIOUS_ACTIVITY'' \<and>
         s_ipAddress event = Some addr)) \<and>
   (count < threshold \<longrightarrow>
      handleSuspiciousActivity now upsertThrows createThrows (st, cache) addr activity count threshold details
        = (st, cache))"
  by (auto simp: handleSuspiciousActivity_def addToBlacklist_def logSecurityEvent_def upsert_def
      isBlacklisted_def Let_def split: option.splits)

theorem escalation_at_threshold_witness:
  "map_option r_source (iPBlacklist (fst
      (handleSuspiciousActivity 0 False False (emptyStore, Map.empty) ''203.0.113.7'' ''LOGIN_FAILED'' 5 5 []))
      ''203.0.113.7'') = Some AUTOMATIC \<and>
   map_option expiresAt (snd
      (handleSuspiciousActivity 0 False False (emptyStore, Map.empty) ''203.0.113.7'' ''LOGIN_FAILED'' 5 5 [])
      ''203.0.113.7'') = Some (Some 1800000) \<and>
   fst (isBlacklisted 1 (snd
      (handleSuspiciousActivity 0 False False (emptyStore, Map.empty) ''203.0.113.7'' ''LOGIN_FAILED'' 5 5 []))
      ''203.0.113.7'') \<and>
   map s_severity (securityLog (fst
      (handleSuspiciousActivity 0 False False (emptyStore, Map.empty) ''203.0.113.7'' ''LOGIN_FAILED'' 5 5 [])))
      = [HIGH] \<and>
   handleSuspiciousActivity 0 False False (emptyStore, Map.empty) ''203.0.113.7'' ''LOGIN_FAILED'' 4 5 []
     = (emptyStore, Map.empty)"
proof -
  have at: "(5::int) \<le> 5" and below: "(4::int) < 5" by simp_all
  from escalation_at_threshold [where threshold = 5 and count = 5 and now = 0 and st = emptyStore
      and cache = Map.empty and addr = "''203.0.113.7''" and details = "[]" and upsertThrows = False
      and createThrows = False] at
  have "\<exists>row. iPBlacklist (fst
          (handleSuspiciousActivity 0 False False (emptyStore, Map.empty) ''203.0.113.7'' ''LOGIN_FAILED'' 5 5 []))
          ''203.0.113.7'' = Some row \<and> r_source row = AUTOMATIC"
    and "map_option expiresAt (snd
          (handleSuspiciousActivity 0 False False (emptyStore, Map.empty) ''203.0.113.7'' ''LOGIN_FAILED'' 5 5 [])
          ''203.0.113.7'') = Some (Some 1800000)"
    and "\<forall>t. 0 \<le> t \<and> t \<le> 1800000 \<longrightarrow> fst (isBlacklisted t (snd
          (handleSuspiciousActivity 0 False False (emptyStore, Map.empty) ''203.0.113.7'' ''LOGIN_FAILED'' 5 5 []))
          ''203.0.113.7'')"
    and "\<exists>event. securityLog (fst
          (handleSuspiciousActivity 0 False False (emptyStore, Map.empty) ''203.0.113.7'' ''LOGIN_FAILED'' 5 5 []))
          = securityLog emptyStore @ [event] \<and> s_severity event = HIGH"
    by (auto simp: Let_def)
  moreover
  from escalation_at_threshold [where threshold = 5 and count = 4 and now = 0 and st = emptyStore
      and cache = Map.empty and addr = "''203.0.113.7''" and details = "[]" and upsertThrows = False
      and createThrows = False and activity = "''LOGIN_FAILED''"] below
  have "handleSuspiciousActivity 0 False False (emptyStore, Map.empty) ''203.0.113.7'' ''LOGIN_FAILED'' 4 5 []
     = (emptyStore, Map.empty)"
    by simp
  ultimately show ?thesis
    by (auto simp: emptyStore_def)
qed

text \<open>
  Claim C9: \<open>getBlacklistReason\<close> does not look at the expiry. For an entry whose
  \<open>expiresAt\<close> is in the past and that is still in the map, it returns the stored reason and
  leaves the map as it is, where \<open>isBlacklisted\<close> returns false and removes the entry.
\<close>

theorem getBlacklistReason_ignores_expiry:
  assumes "cache addr = Some e" and "expiresAt e = Some t" and "t < now"
  shows "getBlacklistReason cache addr = (Some (reason e), cache) \<and>
         isBlacklisted now cache addr = (False, cache(addr := None))"
  using assms by (simp add: getBlacklistReason_def isBlacklisted_def)

theorem getBlacklistReason_ignores_expiry_witness:
  "getBlacklistReason (Map.empty(''203.0.113.7'' \<mapsto> \<lparr>reason = ''manual block'', expiresAt = Some 600000\<rparr>))
     ''203.0.113.7'' =
     (Some ''manual block'', Map.empty(''203.0.113.7'' \<mapsto> \<lparr>reason = ''manual block'', expiresAt = Some 600000\<rparr>)) \<and>
   isBlacklisted 600001 (Map.empty(''203.0.113.7'' \<mapsto> \<lparr>reason = ''manual block'', expiresAt = Some 600000\<rparr>))
     ''203.0.113.7'' = (False, Map.empty)"
  using getBlacklistReason_ignores_expiry [of "Map.empty(''203.0.113.7'' \<mapsto> \<lparr>reason = ''manual block'', expiresAt = Some 600000\<rparr>)"
      "''203.0.113.7''" "\<lparr>reason = ''manual block'', expiresAt = Some 600000\<rparr>" 600000 600001]
  by simp

section \<open>Geolocation and anomalies\<close>

lemma not_local_examples:
  "isLocalIP ''198.51.100.1'' = False" "isLocalIP ''203.0.113.9'' = False" "isLocalIP ''192.0.2.44'' = False"
  "isLocalIP ''8.8.8.8'' = False"
  by (simp_all add: isLocalIP_def matches172_def)

text \<open>
  Claim C8: for an address that is not local and is not served from the cache (no entry, or
  an entry of 24 hours or more), a rejected provider call and an answer whose status is not
  \<open>success\<close> both give \<open>null\<close> and leave the cache as it is; and the cache changes only when
  the provider answered with status \<open>success\<close>. \<open>getLocation\<close> has no failing result: its
  \<open>catch\<close> returns \<open>null\<close>.
\<close>

theorem getLocation_fails_soft:
  assumes "\<not> isLocalIP addr"
    and "cache addr = None \<or> (\<exists>loc ts. cache addr = Some (loc, ts) \<and> CACHE_DURATION \<le> now - ts)"
  shows "(axiosGet addr = Rejected \<or> (\<exists>d. axiosGet addr = Resolved d \<and> d_status d \<noteq> Some ''success'')
            \<longrightarrow> fst (getLocation now axiosGet cache addr) = None \<and>
                fst (snd (getLocation now axiosGet cache addr)) = cache) \<and>
         (fst (snd (getLocation now axiosGet cache addr)) \<noteq> cache
            \<longrightarrow> (\<exists>d. axiosGet addr = Resolved d \<and> d_status d = Some ''success'' \<and>
                  fst (getLocation now axiosGet cache addr) = Some (locationOf addr d)))"
  using assms by (auto simp: getLocation_def Let_def split: axiosResult.splits)

theorem getLocation_fails_soft_witness:
  "getLocation 0 demoProvider Map.empty ''8.8.8.8'' = (None, Map.empty, [Error]) \<and>
   getLocation 0 demoProvider Map.empty ''192.0.2.44'' = (None, Map.empty, [Warn]) \<and>
   fst (snd (getLocation 0 demoProvider Map.empty ''203.0.113.9'')) \<noteq> Map.empty \<and>
   demoProvider ''203.0.113.9'' = Resolved (apiAnswer ''success'' ''Canada'' ''CA'' ''Ontario'' ''ON'')"
proof -
  have r: "demoProvider ''8.8.8.8'' = Rejected"
    and f: "demoProvider ''192.0.2.44'' = Resolved (apiAnswer ''fail'' [] [] [] [])"
    and s: "demoProvider ''203.0.113.9'' = Resolved (apiAnswer ''success'' ''Canada'' ''CA'' ''Ontario'' ''ON'')"
    by (simp_all add: demoProvider_def)
  have upd: "fst (snd (getLocation 0 demoProvider Map.empty ''203.0.113.9'')) \<noteq> Map.empty"
    by (simp add: getLocation_def Let_def not_local_examples s apiAnswer_def)
  have "fst (getLocation 0 demoProvider Map.empty ''8.8.8.8'') = None \<and>
        fst (snd (getLocation 0 demoProvider Map.empty ''8.8.8.8'')) = Map.empty"
    using getLocation_fails_soft [of "''8.8.8.8''" Map.empty 0 demoProvider] r
    by (simp add: not_local_examples)
  moreover have "fst (getLocation 0 demoProvider Map.empty ''192.0.2.44'') = None \<and>
        fst (snd (getLocation 0 demoProvider Map.empty ''192.0.2.44'')) = Map.empty"
    using getLocation_fails_soft [of "''192.0.2.44''" Map.empty 0 demoProvider] f
    by (simp add: not_local_examples apiAnswer_def)
  moreover have "snd (snd (getLocation 0 demoProvider Map.empty ''8.8.8.8'')) = [Error]"
    "snd (snd (getLocation 0 demoProvider Map.empty ''192.0.2.44'')) = [Warn]"
    by (simp_all add: getLocation_def Let_def not_local_examples r f apiAnswer_def)
  ultimately show ?thesis
    using upd s by (simp add: prod_eq_iff)
qed

lemma getLocations_hd:
  "(case fst (getLocations now axiosGet cache ips) of [] \<Rightarrow> None | p # _ \<Rightarrow> p) =
   (case ips of [] \<Rightarrow> None | a # _ \<Rightarrow> fst (getLocation now axiosGet cache a))"
  by (cases ips) (auto split: prod.splits)

lemma detectAnomalies_types:
  assumes cur: "getLocation now axiosGet cache currentIP = (Some cur, cache1, logs1)"
    and hist: "findMany userId = Some previousLogins" "previousLogins \<noteq> []"
    and ips: "ips = distinctFirst (filter (\<lambda>a. a \<noteq> [])
                (map the (filter (\<lambda>a. a \<noteq> None) (map l_ipAddress previousLogins))))"
    and prev: "previous = (case ips of [] \<Rightarrow> None | a # _ \<Rightarrow> fst (getLocation now axiosGet cache1 a))"
  shows "fst (detectAnomalies now currentHour axiosGet findMany cache userId currentIP) =
     (if orString (map_option countryCode previous) [] \<noteq> [] \<and>
         map_option countryCode previous \<noteq> Some (countryCode cur)
      then [\<lparr>anomalyType = COUNTRY_CHANGE, anomalySeverity = HIGH,
             description = ''Login from different country: '' @ country cur @
               '' ('' @ countryCode cur @ '')'',
             currentLocation = cur, previousLocation = previous, riskScore = 0.8\<rparr>]
      else []) @
     (if orString (map_option regionCode previous) [] \<noteq> [] \<and>
         map_option regionCode previous \<noteq> Some (regionCode cur)
      then [\<lparr>anomalyType = REGION_CHANGE, anomalySeverity = MEDIUM,
             description = ''Login from different region: '' @ region cur,
             currentLocation = cur, previousLocation = previous, riskScore = 0.6\<rparr>]
      else []) @
     (if proxy cur \<or> vpn cur
      then [\<lparr>anomalyType = SUSPICIOUS_PROXY, anomalySeverity = MEDIUM,
             description = ''Login from proxy/VPN detected'',
             currentLocation = cur, previousLocation = None, riskScore = 0.7\<rparr>]
      else []) @
     (if countryCode cur \<in> set HIGH_RISK_COUNTRIES
      then [\<lparr>anomalyType = HIGH_RISK_COUNTRY, anomalySeverity = CRITICAL,
             description = ''Login from high-risk country: '' @ country cur,
             currentLocation = cur, previousLocation = None, riskScore = 0.9\<rparr>]
      else []) @
     (if currentHour < 6 \<or> 23 < currentHour
      then [\<lparr>anomalyType = UNUSUAL_TIME, anomalySeverity = LOW,
             description = ''Login at unusual hour: '' @ string_of_nat currentHour @ '':00'',
             currentLocation = cur, previousLocation = None, riskScore = 0.3\<rparr>]
      else [])"
proof -
  obtain locs cache2 logs2 where g: "getLocations now axiosGet cache1 ips = (locs, cache2, logs2)"
    by (cases "getLocations now axiosGet cache1 ips") auto
  have p: "(case locs of [] \<Rightarrow> None | p # _ \<Rightarrow> p) = previous"
    using getLocations_hd [of now axiosGet cache1 ips] g prev by simp
  show ?thesis
    unfolding detectAnomalies_def cur
    using hist g p ips by (simp add: Let_def)
qed

lemma demo_current:
  "getLocation 0 demoProvider Map.empty ''203.0.113.9'' =
     (Some demoCurrent, Map.empty(''203.0.113.9'' \<mapsto> (demoCurrent, 0)), [])"
  by (simp add: getLocation_def Let_def not_local_examples demoProvider_def demoCurrent_def
      apiAnswer_def)

lemma demo_previous:
  "fst (getLocation 0 demoProvider (Map.empty(''203.0.113.9'' \<mapsto> (demoCurrent, 0))) ''198.51.100.1'') =
     Some demoPrevious"
  by (simp add: getLocation_def Let_def not_local_examples demoProvider_def demoPrevious_def
      apiAnswer_def)

lemma demo_codes:
  "countryCode demoCurrent = ''CA''" "regionCode demoCurrent = ''ON''"
  "countryCode demoPrevious = ''US''" "regionCode demoPrevious = ''CA''"
  by (simp_all add: demoCurrent_def demoPrevious_def locationOf_def apiAnswer_def orString_def)

lemma demo_flags: "proxy demoCurrent = False" "vpn demoCurrent = False"
  by (simp_all add: demoCurrent_def locationOf_def apiAnswer_def orBool_def)

lemma demo_ips:
  "distinctFirst (filter (\<lambda>a. a \<noteq> [])
     (map the (filter (\<lambda>a. a \<noteq> None) (map l_ipAddress (the (demoHistory ''user1''))))))
   = [''198.51.100.1'']"
  by (simp add: demoHistory_def)

text \<open>
  Claim C4, as amended: when the current location resolves and the user has login history,
  \<open>detectAnomalies\<close> emits \<open>REGION_CHANGE\<close> exactly when the most recent historical address
  resolves to a location whose region code is not empty and differs from the current region
  code, whatever the country codes are; every \<open>REGION_CHANGE\<close> has severity \<open>MEDIUM\<close> and
  risk score 0.6; \<open>COUNTRY_CHANGE\<close> is emitted on the same condition for the country codes, so
  both are emitted when both codes differ.
\<close>

theorem region_change_emitted_iff:
  assumes "getLocation now axiosGet cache currentIP = (Some cur, cache1, logs1)"
    and "findMany userId = Some previousLogins" and "previousLogins \<noteq> []"
    and "ips = distinctFirst (filter (\<lambda>a. a \<noteq> [])
                (map the (filter (\<lambda>a. a \<noteq> None) (map l_ipAddress previousLogins))))"
    and "previous = (case ips of [] \<Rightarrow> None | a # _ \<Rightarrow> fst (getLocation now axiosGet cache1 a))"
    and "anomalies = fst (detectAnomalies now currentHour axiosGet findMany cache userId currentIP)"
  shows "((\<exists>a \<in> set anomalies. anomalyType a = REGION_CHANGE) =
            (\<exists>p. previous = Some p \<and> regionCode p \<noteq> [] \<and> regionCode p \<noteq> regionCode cur)) \<and>
         (\<forall>a \<in> set anomalies. anomalyType a = REGION_CHANGE \<longrightarrow>
            anomalySeverity a = MEDIUM \<and> riskScore a = 0.6) \<and>
         ((\<exists>a \<in> set anomalies. anomalyType a = COUNTRY_CHANGE) =
            (\<exists>p. previous = Some p \<and> countryCode p \<noteq> [] \<and> countryCode p \<noteq> countryCode cur))"
  unfolding assms(6)
    detectAnomalies_types [where findMany = findMany and userId = userId, OF assms(1-5)]
  by (cases previous) (auto simp: orString_def)

theorem region_change_emitted_iff_witness:
  "REGION_CHANGE \<in> anomalyType `
     set (fst (detectAnomalies 0 12 demoProvider demoHistory Map.empty ''user1'' ''203.0.113.9'')) \<and>
   regionCode demoPrevious \<noteq> regionCode demoCurrent"
proof -
  have h: "demoHistory ''user1'' = Some (the (demoHistory ''user1''))" "the (demoHistory ''user1'') \<noteq> []"
    by (simp_all add: demoHistory_def)
  from region_change_emitted_iff [where findMany = demoHistory and userId = "''user1''"
      and currentHour = 12, OF demo_current h demo_ips [symmetric] refl refl]
  have "(\<exists>a \<in> set (fst (detectAnomalies 0 12 demoProvider demoHistory Map.empty ''user1'' ''203.0.113.9'')).
           anomalyType a = REGION_CHANGE) =
        (\<exists>p. Some demoPrevious = Some p \<and> regionCode p \<noteq> [] \<and> regionCode p \<noteq> regionCode demoCurrent)"
    by (simp add: demo_ips demo_previous)
  then obtain a where
    "a \<in> set (fst (detectAnomalies 0 12 demoProvider demoHistory Map.empty ''user1'' ''203.0.113.9''))"
    and "anomalyType a = REGION_CHANGE"
    by (auto simp: demo_codes)
  then have "REGION_CHANGE \<in> anomalyType `
     set (fst (detectAnomalies 0 12 demoProvider demoHistory Map.empty ''user1'' ''203.0.113.9''))"
    by (metis image_eqI)
  then show ?thesis
    by (simp add: demo_codes)
qed

text \<open>
  Claim C4 as stated does not hold: a login from Ontario, Canada after one from California,
  United States gives both \<open>COUNTRY_CHANGE\<close> and \<open>REGION_CHANGE\<close>.
\<close>

theorem region_change_with_country_change_counterexample:
  "map anomalyType (fst (detectAnomalies 0 12 demoProvider demoHistory Map.empty ''user1'' ''203.0.113.9''))
     = [COUNTRY_CHANGE, REGION_CHANGE] \<and>
   map_option countryCode (fst (getLocation 0 demoProvider Map.empty ''203.0.113.9'')) = Some ''CA'' \<and>
   map_option countryCode
     (fst (getLocation 0 demoProvider (Map.empty(''203.0.113.9'' \<mapsto> (demoCurrent, 0))) ''198.51.100.1''))
     = Some ''US''"
proof -
  have h: "demoHistory ''user1'' = Some (the (demoHistory ''user1''))" "the (demoHistory ''user1'') \<noteq> []"
    by (simp_all add: demoHistory_def)
  have "fst (detectAnomalies 0 12 demoProvider demoHistory Map.empty ''user1'' ''203.0.113.9'') =
      [\<lparr>anomalyType = COUNTRY_CHANGE, anomalySeverity = HIGH,
         description = ''Login from different country: '' @ country demoCurrent @
           '' ('' @ countryCode demoCurrent @ '')'',
         currentLocation = demoCurrent, previousLocation = Some demoPrevious, riskScore = 0.8\<rparr>,
       \<lparr>anomalyType = REGION_CHANGE, anomalySeverity = MEDIUM,
         description = ''Login from different region: '' @ region demoCurrent,
         currentLocation = demoCurrent, previousLocation = Some demoPrevious, riskScore = 0.6\<rparr>]"
    by (subst detectAnomalies_types [where findMany = demoHistory and userId = "''user1''",
          OF demo_current h demo_ips [symmetric] refl])
      (simp add: demo_previous demo_codes demo_flags orString_def HIGH_RISK_COUNTRIES_def)
  then show ?thesis
    by (simp add: demo_current demo_previous demo_codes)
qed

section \<open>Audit statistics\<close>

lemma failed_among_total:
  "length (filter (\<lambda>r. P r \<and> Q r) xs) \<le> length (filter P xs)"
  by (induction xs) auto

text \<open>
  Where the division is defined, the expression is the quotient of the reals; for no action
  at all it is \<open>0 / 0\<close>, not a number: the test \<open>totalActions > 0\<close> is what keeps \<open>NaN\<close> out of
  the statistics.
\<close>

lemma rateOf_positive:
  "0 < totalCount \<Longrightarrow>
   rateOf totalCount failedCount =
     Finite (real_of_int (totalCount - failedCount) / real_of_int totalCount * 100)"
  by (simp add: rateOf_def ofCount_def)

lemma rateOf_zero: "rateOf 0 0 = NaN"
  by (simp add: rateOf_def ofCount_def)

text \<open>
  Claim C7: when the three counts succeed, \<open>getAuditStats\<close> returns statistics whose
  \<open>successRate\<close> is the value of \<open>(totalActions - failedActions) / totalActions * 100\<close> when
  \<open>totalActions > 0\<close>, a finite number between 0 and 100, and is the number 0 when
  \<open>totalActions = 0\<close>, where the expression itself would give \<open>NaN\<close>; the failed actions are
  among the total. This holds for every length of the window and every time zone.
\<close>

theorem successRate_formula:
  assumes "\<not> countThrows"
  shows "\<exists>r. getAuditStats setDate now countThrows auditLog secLog days = Some r \<and>
           (0 < totalActions r \<longrightarrow>
              successRate r = rateOf (totalActions r) (failedActions r) \<and>
              successRate r =
                Finite (real_of_int (totalActions r - failedActions r) / real_of_int (totalActions r) * 100)) \<and>
           (totalActions r = 0 \<longrightarrow> successRate r = Finite 0 \<and> successRate r \<noteq> rateOf 0 0) \<and>
           (\<exists>x. successRate r = Finite x \<and> 0 \<le> x \<and> x \<le> 100) \<and>
           0 \<le> failedActions r \<and> failedActions r \<le> totalActions r"
proof -
  define n where "n = int (length (filter (\<lambda>r. setDate now days \<le> l_timestamp r) auditLog))"
  define f where
    "f = int (length (filter (\<lambda>r. setDate now days \<le> l_timestamp r \<and> l_success r = False) auditLog))"
  define e where "e = int (length (filter (\<lambda>r. setDate now days \<le> s_timestamp r) secLog))"
  define R where "R = \<lparr>totalActions = n, failedActions = f, securityEvents = e,
      successRate = (if 0 < n then rateOf n f else Finite 0)\<rparr>"
  have r: "getAuditStats setDate now countThrows auditLog secLog days = Some R"
    using assms by (simp add: getAuditStats_def Let_def rateOf_def n_def f_def e_def R_def)
  have sel: "totalActions R = n" "failedActions R = f"
      "successRate R = (if 0 < n then rateOf n f else Finite 0)"
    by (simp_all add: R_def)
  have f0: "0 \<le> f" by (simp add: f_def)
  have fn: "f \<le> n"
    unfolding f_def n_def
    using failed_among_total [of "\<lambda>r. setDate now days \<le> l_timestamp r"
        "\<lambda>r. l_success r = False" auditLog]
    by simp
  have c1: "0 < totalActions R \<longrightarrow>
      successRate R = rateOf (totalActions R) (failedActions R) \<and>
      successRate R =
        Finite (real_of_int (totalActions R - failedActions R) / real_of_int (totalActions R) * 100)"
    by (simp only: sel) (simp add: rateOf_positive)
  have c2: "totalActions R = 0 \<longrightarrow> successRate R = Finite 0 \<and> successRate R \<noteq> rateOf 0 0"
    by (simp only: sel) (simp add: rateOf_zero)
  have c3: "\<exists>x. successRate R = Finite x \<and> 0 \<le> x \<and> x \<le> 100"
  proof (cases "0 < n")
    case True
    define q where "q = real_of_int (n - f) / real_of_int n"
    have "0 \<le> q"
      unfolding q_def using True fn by (intro divide_nonneg_pos) simp_all
    moreover have "q \<le> 1"
      unfolding q_def using True f0 by (simp add: divide_le_eq_1)
    ultimately have "0 \<le> q * 100 \<and> q * 100 \<le> 100" by simp
    moreover have "successRate R = Finite (q * 100)"
      using True by (simp only: sel q_def) (simp add: rateOf_positive)
    ultimately show ?thesis by blast
  next
    case False
    then show ?thesis by (simp add: sel)
  qed
  have c4: "0 \<le> failedActions R \<and> failedActions R \<le> totalActions R"
    using f0 fn by (simp add: sel)
  from r c1 c2 c3 c4 show ?thesis by blast
qed

theorem successRate_formula_witness:
  "map_option successRate (getAuditStats utcSetDate 50 False demoLog [] 30) = Some (Finite 75) \<and>
   map_option successRate (getAuditStats utcSetDate 50 False [] [] 30) = Some (Finite 0) \<and>
   rateOf 0 0 = NaN"
proof -
  from successRate_formula [of False utcSetDate 50 demoLog "[]" 30]
  obtain r where r: "getAuditStats utcSetDate 50 False demoLog [] 30 = Some r"
    and rate: "0 < totalActions r \<longrightarrow>
      successRate r =
        Finite (real_of_int (totalActions r - failedActions r) / real_of_int (totalActions r) * 100)"
    by auto
  from r have "totalActions r = 4" "failedActions r = 1"
    by (auto simp: getAuditStats_def Let_def demoLog_def utcSetDate_def)
  with rate have "successRate r = Finite 75" by simp
  moreover
  from successRate_formula [of False utcSetDate 50 "[]" "[]" 30]
  obtain r0 where r0: "getAuditStats utcSetDate 50 False [] [] 30 = Some r0"
    and zero: "totalActions r0 = 0 \<longrightarrow> successRate r0 = Finite 0 \<and> successRate r0 \<noteq> rateOf 0 0"
    by auto
  from r0 have "totalActions r0 = 0" by (auto simp: getAuditStats_def Let_def)
  with zero have "successRate r0 = Finite 0" by simp
  ultimately show ?thesis using r r0 by (simp add: rateOf_zero)
qed


end
